theory Spec2Isabelle
  imports Complex_Main
begin

section \<open>The DogStatsd client of \<open>datadog/dogstatsd/base.py\<close>\<close>

text \<open>
  The class \<open>DogStatsd\<close> is embedded as a record of its attributes and one function per
  method, each taking the client and returning the updated client. Names are the
  source's, without the leading underscore of private members.

  \<^item> A Python \<open>str\<close> is a \<open>string\<close> whose characters are read as code points
    (U+0000 to U+00FF); \<open>length\<close> is Python's \<open>len\<close>, and \<open>encode\<close> below gives the
    UTF-8 bytes, so that the length in characters and the length in bytes differ as
    they do in Python.
  \<^item> A Python \<open>float\<close> is read as the rational it denotes; an \<open>int\<close> is an \<open>int\<close>.
  \<^item> What the outside world answers (the result of connecting a socket, of sending on
    it, the value of \<open>random()\<close>, the clock) is an argument of the call.
  \<^item> The calls whose number and order matter (lock acquisitions, packets handed to the
    transport, operations on the flush thread) are appended to the field \<open>trace\<close>.
\<close>

subsection \<open>Strings, numbers and formatting\<close>

definition NL :: char where
  "NL = CHR 0x0A"

definition BACKSLASH :: char where
  "BACKSLASH = CHR 0x5C"

text \<open>\<open>sep.join(xs)\<close>.\<close>

fun join :: "string \<Rightarrow> string list \<Rightarrow> string" where
  "join sep [] = []"
| "join sep [x] = x"
| "join sep (x # y # ys) = x @ sep @ join sep (y # ys)"

text \<open>\<open>s.encode('utf-8')\<close> on code points below U+0100: one byte below U+0080, two above.\<close>

definition encode_char :: "char \<Rightarrow> nat list" where
  "encode_char c =
     (let n = (of_char c :: nat)
      in if n < 128 then [n] else [192 + n div 64, 128 + n mod 64])"

definition encode :: "string \<Rightarrow> nat list" where
  "encode s = concat (map encode_char s)"

text \<open>\<open>s.startswith(p)\<close> and \<open>s.replace(old, new)\<close>: the occurrences of \<open>old\<close> are taken
  from the left and do not overlap.\<close>

definition startswith :: "string \<Rightarrow> string \<Rightarrow> bool" where
  "startswith s p = (take (length p) s = p)"

fun replace :: "string \<Rightarrow> string \<Rightarrow> string \<Rightarrow> string" where
  "replace [] new s = new @ concat (map (\<lambda>c. c # new) s)"
| "replace (a # as) new [] = []"
| "replace (a # as) new (c # cs) =
     (if startswith (c # cs) (a # as)
      then new @ replace (a # as) new (drop (length as) cs)
      else c # replace (a # as) new cs)"

text \<open>\<open>str(n)\<close> of an \<open>int\<close>, also what \<open>%s\<close>, \<open>%d\<close> and \<open>{}\<close> print for one.
  \<open>digit_char\<close> is applied to digits only.\<close>

definition digit_char :: "nat \<Rightarrow> char" where
  "digit_char d = ''0123456789'' ! d"

fun str_nat :: "nat \<Rightarrow> string" where
  "str_nat n = (if n < 10 then [digit_char n] else str_nat (n div 10) @ [digit_char (n mod 10)])"

declare str_nat.simps [simp del]

definition str_int :: "int \<Rightarrow> string" where
  "str_int i = (if i < 0 then ''-'' @ str_nat (nat (- i)) else str_nat (nat i))"

datatype pynum = PyInt int | PyFloat rat

fun num_val :: "pynum \<Rightarrow> rat" where
  "num_val (PyInt i) = of_int i"
| "num_val (PyFloat r) = r"

fun num_neg :: "pynum \<Rightarrow> pynum" where
  "num_neg (PyInt i) = PyInt (- i)"
| "num_neg (PyFloat r) = PyFloat (- r)"

text \<open>
  Two functions of the Python side are not in the source file and are arguments of the
  model: how a \<open>float\<close> prints (\<open>str\<close>, which \<open>datadog.util.compat.text\<close> and \<open>%s\<close> call),
  and \<open>datadog.util.format.normalize_tags\<close>.
\<close>

record pylib =
  str_float :: "rat \<Rightarrow> string"
  normalize_tags :: "string list \<Rightarrow> string list"

fun text_of :: "pylib \<Rightarrow> pynum \<Rightarrow> string" where
  "text_of L (PyInt i) = str_int i"
| "text_of L (PyFloat r) = str_float L r"

text \<open>Truth values of optional strings and lists: \<open>None\<close> and the empty one are false.\<close>

fun truthy :: "'a list option \<Rightarrow> bool" where
  "truthy None = False"
| "truthy (Some xs) = (xs \<noteq> [])"

fun truthy_int :: "int option \<Rightarrow> bool" where
  "truthy_int None = False"
| "truthy_int (Some i) = (i \<noteq> 0)"

subsection \<open>The client's state\<close>

text \<open>
  A socket is a handle. The events of the trace: a lock taken or released (with
  \<open>with\<close>, \<open>acquire\<close>, \<open>release\<close>), \<open>_xmit_packet(packet, is_telemetry)\<close> entered, a socket
  closed, the flush thread started, its stop event set, the thread joined, the stop event
  cleared.
\<close>

type_synonym sock = nat

datatype lock = SocketLock | BufferLock | ToggleLock

datatype event =
    Acquire lock
  | Release lock
  | Xmit string bool
  | Close sock
  | ThreadStart
  | StopSet
  | ThreadJoin
  | StopClear

text \<open>
  What the \<open>try\<close> block of \<open>_xmit_packet\<close> can raise: \<open>socket.timeout\<close>, \<open>socket.herror\<close>,
  \<open>socket.gaierror\<close>, another \<open>socket.error\<close> with its \<open>errno\<close> (\<open>EOTHER\<close>: any value but the
  three the code names), another \<open>Exception\<close>. What a method lets through to its caller
  is a \<open>pyerror\<close>.
\<close>

datatype errno = EAGAIN | ENOBUFS | EMSGSIZE | EOTHER

datatype exn =
    SocketTimeout
  | SocketHError
  | SocketGaiError
  | SocketError errno
  | OtherException

datatype pyerror = ValueError | AttributeError

text \<open>
  The attribute \<open>_send\<close> holds one of two bound methods. The attribute \<open>_flush_thread\<close> was
  never assigned (\<open>Unset\<close>), is \<open>None\<close> (\<open>NoThread\<close>) or is a started thread with the
  period of its loop.
\<close>

datatype send_path = SendToBuffer | SendToServer

datatype thread_attr = Unset | NoThread | Thread rat

record client =
  enabled :: bool
  namespace :: "string option"
  constant_tags :: "string list"
  default_sample_rate :: pynum
  container_id :: "string option"
  client_tags :: "string list"
  telemetry :: bool
  telemetry_flush_interval :: rat
  last_flush_time :: rat
  metrics_count :: int
  events_count :: int
  service_checks_count :: int
  bytes_sent :: int
  bytes_dropped :: int
  packets_sent :: int
  packets_dropped :: int
  max_payload_size :: int
  current_buffer_total_size :: int
  buffer :: "string list"
  send :: send_path
  disable_buffering :: bool
  flush_interval :: rat
  flush_thread :: thread_attr
  flush_thread_stop :: bool
  socket :: "sock option"
  telemetry_socket :: "sock option"
  telemetry_socket_path :: "string option"
  telemetry_host :: "string option"
  trace :: "event list"

definition emit :: "event \<Rightarrow> client \<Rightarrow> client" where
  "emit e c = c\<lparr>trace := trace c @ [e]\<rparr>"

text \<open>
  The world's answers during one call: what creating and connecting a socket gives when
  one is needed, and what \<open>send\<close> on a socket gives (\<open>None\<close>: the bytes went out).
\<close>

record io =
  connect :: "exn + sock"
  sock_send :: "sock \<Rightarrow> nat list \<Rightarrow> exn option"

text \<open>
  A call sends at most one payload and one telemetry packet: \<open>main_io\<close> and
  \<open>telemetry_io\<close> answer them; \<open>random_value\<close> is what \<open>random()\<close> returns, \<open>time_check\<close>
  and \<open>time_reset\<close> are what \<open>time.time()\<close> returns in \<open>_is_telemetry_flush_time\<close> and after
  the telemetry packet was handed over.
\<close>

record env =
  random_value :: rat
  main_io :: io
  telemetry_io :: io
  time_check :: rat
  time_reset :: rat

subsection \<open>Transport\<close>

definition dedicated_telemetry_destination :: "client \<Rightarrow> bool" where
  "dedicated_telemetry_destination c =
     (truthy (telemetry_socket_path c) \<or> truthy (telemetry_host c))"

definition get_socket :: "client \<Rightarrow> bool \<Rightarrow> io \<Rightarrow> (exn + sock) \<times> client" where
  "get_socket c tel w =
     (let c1 = emit (Acquire SocketLock) c
      in if tel \<and> dedicated_telemetry_destination c1 then
           (case telemetry_socket c1 of
              None \<Rightarrow>
                (case connect w of
                   Inl e \<Rightarrow> (Inl e, emit (Release SocketLock) c1)
                 | Inr s \<Rightarrow> (Inr s, emit (Release SocketLock) (c1\<lparr>telemetry_socket := Some s\<rparr>)))
            | Some s \<Rightarrow> (Inr s, emit (Release SocketLock) c1))
         else
           (case socket c1 of
              None \<Rightarrow>
                (case connect w of
                   Inl e \<Rightarrow> (Inl e, emit (Release SocketLock) c1)
                 | Inr s \<Rightarrow> (Inr s, emit (Release SocketLock) (c1\<lparr>socket := Some s\<rparr>)))
            | Some s \<Rightarrow> (Inr s, emit (Release SocketLock) c1)))"

text \<open>An \<open>OSError\<close> of \<open>close()\<close> is logged and changes nothing else.\<close>

definition close_socket :: "client \<Rightarrow> client" where
  "close_socket c =
     (let c1 = emit (Acquire SocketLock) c;
          c2 = (case socket c1 of
                  None \<Rightarrow> c1
                | Some s \<Rightarrow> (emit (Close s) c1)\<lparr>socket := None\<rparr>);
          c3 = (case telemetry_socket c2 of
                  None \<Rightarrow> c2
                | Some s \<Rightarrow> (emit (Close s) c2)\<lparr>telemetry_socket := None\<rparr>)
      in emit (Release SocketLock) c3)"

text \<open>The socket \<open>_xmit_packet\<close> sends on: the cached one, or \<open>get_socket\<close>'s.\<close>

definition mysocket :: "client \<Rightarrow> bool \<Rightarrow> io \<Rightarrow> (exn + sock) \<times> client" where
  "mysocket c is_telemetry w =
     (if is_telemetry \<and> dedicated_telemetry_destination c then
        (case telemetry_socket c of
           Some s \<Rightarrow> (Inr s, c)
         | None \<Rightarrow> get_socket c True w)
      else
        (case socket c of
           Some s \<Rightarrow> (Inr s, c)
         | None \<Rightarrow> get_socket c False w))"

text \<open>The \<open>try\<close> block of \<open>_xmit_packet\<close>: \<open>Some e\<close> when it raises \<open>e\<close>.\<close>

definition xmit_try :: "client \<Rightarrow> string \<Rightarrow> bool \<Rightarrow> io \<Rightarrow> exn option \<times> client" where
  "xmit_try c packet is_telemetry w =
     (case mysocket c is_telemetry w of
        (Inl e, c1) \<Rightarrow> (Some e, c1)
      | (Inr s, c1) \<Rightarrow>
          (case sock_send w s (encode packet) of
             Some e \<Rightarrow> (Some e, c1)
           | None \<Rightarrow>
               (None,
                if \<not> is_telemetry \<and> telemetry c1
                then c1\<lparr>packets_sent := packets_sent c1 + 1,
                        bytes_sent := bytes_sent c1 + int (length packet)\<rparr>
                else c1)))"

text \<open>The \<open>except\<close> clauses, in the source's order.\<close>

fun xmit_except :: "exn \<Rightarrow> client \<Rightarrow> client" where
  "xmit_except SocketTimeout c = c"
| "xmit_except SocketHError c = close_socket c"
| "xmit_except SocketGaiError c = close_socket c"
| "xmit_except (SocketError e) c =
     (if e = EAGAIN then c
      else if e = ENOBUFS then c
      else if e = EMSGSIZE then c
      else close_socket c)"
| "xmit_except OtherException c = c"

definition xmit_packet :: "client \<Rightarrow> string \<Rightarrow> bool \<Rightarrow> io \<Rightarrow> bool \<times> client" where
  "xmit_packet c packet is_telemetry w =
     (case xmit_try (emit (Xmit packet is_telemetry) c) packet is_telemetry w of
        (None, c1) \<Rightarrow> (True, c1)
      | (Some e, c1) \<Rightarrow>
          (let c2 = xmit_except e c1
           in (False,
               if \<not> is_telemetry \<and> telemetry c2
               then c2\<lparr>bytes_dropped := bytes_dropped c2 + int (length packet),
                       packets_dropped := packets_dropped c2 + 1\<rparr>
               else c2)))"

subsection \<open>Telemetry\<close>

definition add_constant_tags :: "client \<Rightarrow> string list option \<Rightarrow> string list option" where
  "add_constant_tags c tags =
     (if constant_tags c \<noteq> [] then
        (case tags of
           Some ts \<Rightarrow> if ts \<noteq> [] then Some (ts @ constant_tags c) else Some (constant_tags c)
         | None \<Rightarrow> Some (constant_tags c))
      else tags)"

definition reset_telemetry :: "client \<Rightarrow> rat \<Rightarrow> client" where
  "reset_telemetry c now =
     c\<lparr>metrics_count := 0, events_count := 0, service_checks_count := 0,
       bytes_sent := 0, bytes_dropped := 0, packets_sent := 0, packets_dropped := 0,
       last_flush_time := now\<rparr>"

text \<open>One line of \<open>TELEMETRY_FORMATTING_STR\<close>, filled in. \<open>_add_constant_tags\<close> is given a
  list here, so it returns one.\<close>

definition telemetry_line :: "string \<Rightarrow> int \<Rightarrow> string \<Rightarrow> string" where
  "telemetry_line name n tags =
     ''datadog.dogstatsd.client.'' @ name @ '':'' @ str_int n @ ''|c|#'' @ tags"

definition flush_telemetry :: "client \<Rightarrow> string" where
  "flush_telemetry c =
     (let telemetry_tags =
            join '','' (case add_constant_tags c (Some (client_tags c)) of
                          Some ts \<Rightarrow> ts | None \<Rightarrow> [])
      in join [NL]
           [telemetry_line ''metrics'' (metrics_count c) telemetry_tags,
            telemetry_line ''events'' (events_count c) telemetry_tags,
            telemetry_line ''service_checks'' (service_checks_count c) telemetry_tags,
            telemetry_line ''bytes_sent'' (bytes_sent c) telemetry_tags,
            telemetry_line ''bytes_dropped'' (bytes_dropped c) telemetry_tags,
            telemetry_line ''packets_sent'' (packets_sent c) telemetry_tags,
            telemetry_line ''packets_dropped'' (packets_dropped c) telemetry_tags]
         @ [NL])"

definition is_telemetry_flush_time :: "client \<Rightarrow> rat \<Rightarrow> bool" where
  "is_telemetry_flush_time c now =
     (telemetry c \<and> last_flush_time c + telemetry_flush_interval c < now)"

definition send_to_server :: "client \<Rightarrow> string \<Rightarrow> env \<Rightarrow> client" where
  "send_to_server c packet w =
     (let c1 = snd (xmit_packet c (packet @ [NL]) False (main_io w))
      in if is_telemetry_flush_time c1 (time_check w) then
           (let telemetry = flush_telemetry c1
            in case xmit_packet c1 telemetry True (telemetry_io w) of
                 (True, c2) \<Rightarrow>
                   (let c3 = reset_telemetry c2 (time_reset w)
                    in c3\<lparr>packets_sent := packets_sent c3 + 1,
                           bytes_sent := bytes_sent c3 + int (length telemetry)\<rparr>)
               | (False, c2) \<Rightarrow>
                   c2\<lparr>last_flush_time := time_reset w,
                      bytes_dropped := bytes_dropped c2 + int (length telemetry),
                      packets_dropped := packets_dropped c2 + 1\<rparr>)
         else c1)"

subsection \<open>The buffer\<close>

definition reset_buffer :: "client \<Rightarrow> client" where
  "reset_buffer c =
     emit (Release BufferLock)
       ((emit (Acquire BufferLock) c)\<lparr>current_buffer_total_size := 0, buffer := []\<rparr>)"

definition flush :: "client \<Rightarrow> env \<Rightarrow> client" where
  "flush c w =
     (let c1 = emit (Acquire BufferLock) c;
          c2 = (if buffer c1 \<noteq> []
                then reset_buffer (send_to_server c1 (join [NL] (buffer c1)) w)
                else c1)
      in emit (Release BufferLock) c2)"

definition should_flush :: "client \<Rightarrow> int \<Rightarrow> bool" where
  "should_flush c length_to_be_added =
     (if current_buffer_total_size c + length_to_be_added + 1 > max_payload_size c
      then True else False)"

definition send_to_buffer :: "client \<Rightarrow> string \<Rightarrow> env \<Rightarrow> client" where
  "send_to_buffer c packet w =
     (let c1 = emit (Acquire BufferLock) c;
          c2 = (if should_flush c1 (int (length packet)) then flush c1 w else c1);
          c3 = c2\<lparr>buffer := buffer c2 @ [packet]\<rparr>;
          c4 = c3\<lparr>current_buffer_total_size :=
                    current_buffer_total_size c3 + (int (length packet) + 1)\<rparr>
      in emit (Release BufferLock) c4)"

text \<open>\<open>self._send(packet)\<close>: the attribute holds one of the two bound methods.\<close>

definition call_send :: "client \<Rightarrow> string \<Rightarrow> env \<Rightarrow> client" where
  "call_send c packet w =
     (case send c of
        SendToBuffer \<Rightarrow> send_to_buffer c packet w
      | SendToServer \<Rightarrow> send_to_server c packet w)"

subsection \<open>Metrics\<close>

definition serialize_metric ::
  "pylib \<Rightarrow> client \<Rightarrow> string \<Rightarrow> string \<Rightarrow> pynum \<Rightarrow> string list option \<Rightarrow> pynum \<Rightarrow> string" where
  "serialize_metric L c metric metric_type val tags sample_rate =
     (if truthy (namespace c) then the (namespace c) @ ''.'' else [])
     @ metric @ '':'' @ text_of L val @ ''|'' @ metric_type
     @ (if num_val sample_rate \<noteq> 1 then ''|@'' @ text_of L sample_rate else [])
     @ (if truthy tags then ''|#'' @ join '','' (normalize_tags L (the tags)) else [])
     @ (if truthy (container_id c) then ''|c:'' @ the (container_id c) else [])"

definition report ::
  "pylib \<Rightarrow> client \<Rightarrow> string \<Rightarrow> string \<Rightarrow> pynum option \<Rightarrow> string list option \<Rightarrow>
   pynum option \<Rightarrow> env \<Rightarrow> client" where
  "report L c metric metric_type val tags sample_rate w =
     (case val of
        None \<Rightarrow> c
      | Some v \<Rightarrow>
          if \<not> enabled c then c
          else
            (let c1 = (if telemetry c then c\<lparr>metrics_count := metrics_count c + 1\<rparr> else c);
                 rate = (case sample_rate of None \<Rightarrow> default_sample_rate c1 | Some r \<Rightarrow> r)
             in if num_val rate \<noteq> 1 \<and> random_value w > num_val rate then c1
                else
                  (let tags' = add_constant_tags c1 tags;
                       payload = serialize_metric L c1 metric metric_type v tags' rate
                   in call_send c1 payload w)))"

definition gauge ::
  "pylib \<Rightarrow> client \<Rightarrow> string \<Rightarrow> pynum option \<Rightarrow> string list option \<Rightarrow> pynum option \<Rightarrow> env \<Rightarrow> client" where
  "gauge L c metric val tags sample_rate w = report L c metric ''g'' val tags sample_rate w"

definition increment ::
  "pylib \<Rightarrow> client \<Rightarrow> string \<Rightarrow> pynum option \<Rightarrow> string list option \<Rightarrow> pynum option \<Rightarrow> env \<Rightarrow> client" where
  "increment L c metric val tags sample_rate w = report L c metric ''c'' val tags sample_rate w"

text \<open>\<open>metric_value = -value if value else value\<close>: \<open>None\<close> and zero are false.\<close>

definition decrement ::
  "pylib \<Rightarrow> client \<Rightarrow> string \<Rightarrow> pynum option \<Rightarrow> string list option \<Rightarrow> pynum option \<Rightarrow> env \<Rightarrow> client" where
  "decrement L c metric val tags sample_rate w =
     (let metric_value =
            (case val of
               None \<Rightarrow> None
             | Some v \<Rightarrow> if num_val v \<noteq> 0 then Some (num_neg v) else Some v)
      in report L c metric ''c'' metric_value tags sample_rate w)"

definition histogram ::
  "pylib \<Rightarrow> client \<Rightarrow> string \<Rightarrow> pynum option \<Rightarrow> string list option \<Rightarrow> pynum option \<Rightarrow> env \<Rightarrow> client" where
  "histogram L c metric val tags sample_rate w = report L c metric ''h'' val tags sample_rate w"

definition distribution ::
  "pylib \<Rightarrow> client \<Rightarrow> string \<Rightarrow> pynum option \<Rightarrow> string list option \<Rightarrow> pynum option \<Rightarrow> env \<Rightarrow> client" where
  "distribution L c metric val tags sample_rate w = report L c metric ''d'' val tags sample_rate w"

definition timing ::
  "pylib \<Rightarrow> client \<Rightarrow> string \<Rightarrow> pynum option \<Rightarrow> string list option \<Rightarrow> pynum option \<Rightarrow> env \<Rightarrow> client" where
  "timing L c metric val tags sample_rate w = report L c metric ''ms'' val tags sample_rate w"

definition set_metric ::
  "pylib \<Rightarrow> client \<Rightarrow> string \<Rightarrow> pynum option \<Rightarrow> string list option \<Rightarrow> pynum option \<Rightarrow> env \<Rightarrow> client" where
  "set_metric L c metric val tags sample_rate w = report L c metric ''s'' val tags sample_rate w"

subsection \<open>Events and service checks\<close>

definition escape_event_content :: "string \<Rightarrow> string" where
  "escape_event_content string = replace [NL] [BACKSLASH, CHR ''n''] string"

definition escape_service_check_message :: "string \<Rightarrow> string" where
  "escape_service_check_message string =
     replace ''m:'' [CHR ''m'', BACKSLASH, CHR '':''] (replace [NL] [BACKSLASH, CHR ''n''] string)"

text \<open>
  The local \<open>string\<close> of \<open>event\<close> as it stands before the size check (Python 3: the
  branch under \<open>not is_p3k()\<close> is not taken).
\<close>

definition event_string ::
  "client \<Rightarrow> string \<Rightarrow> string \<Rightarrow> string option \<Rightarrow> string option \<Rightarrow> string option \<Rightarrow>
   int option \<Rightarrow> string option \<Rightarrow> string list option \<Rightarrow> string option \<Rightarrow> string" where
  "event_string c title message alert_type aggregation_key source_type_name
     date_happened priority tags hostname =
     (let title' = escape_event_content title;
          message' = escape_event_content message;
          tags' = add_constant_tags c tags
      in ''_e{'' @ str_int (int (length (encode title'))) @ '','' @
           str_int (int (length (encode message'))) @ ''}:'' @ title' @ ''|'' @ message'
         @ (if truthy_int date_happened then ''|d:'' @ str_int (the date_happened) else [])
         @ (if truthy hostname then ''|h:'' @ the hostname else [])
         @ (if truthy aggregation_key then ''|k:'' @ the aggregation_key else [])
         @ (if truthy priority then ''|p:'' @ the priority else [])
         @ (if truthy source_type_name then ''|s:'' @ the source_type_name else [])
         @ (if truthy alert_type then ''|t:'' @ the alert_type else [])
         @ (if truthy tags' then ''|#'' @ join '','' (the tags') else [])
         @ (if truthy (container_id c) then ''|c:'' @ the (container_id c) else []))"

text \<open>\<open>event\<close> raises before it assigns anything: the client comes back as it was.\<close>

definition event ::
  "client \<Rightarrow> string \<Rightarrow> string \<Rightarrow> string option \<Rightarrow> string option \<Rightarrow> string option \<Rightarrow>
   int option \<Rightarrow> string option \<Rightarrow> string list option \<Rightarrow> string option \<Rightarrow> env \<Rightarrow>
   pyerror option \<times> client" where
  "event c title message alert_type aggregation_key source_type_name
     date_happened priority tags hostname w =
     (let string = event_string c title message alert_type aggregation_key source_type_name
                     date_happened priority tags hostname
      in if int (length string) > 8 * 1024 then (Some ValueError, c)
         else
           (let c1 = (if telemetry c then c\<lparr>events_count := events_count c + 1\<rparr> else c)
            in (None, call_send c1 string w)))"

definition service_check_string ::
  "client \<Rightarrow> string \<Rightarrow> int \<Rightarrow> string list option \<Rightarrow> int option \<Rightarrow> string option \<Rightarrow>
   string option \<Rightarrow> string" where
  "service_check_string c check_name status tags timestamp hostname message =
     (let message' = (case message of
                        Some m \<Rightarrow> escape_service_check_message m
                      | None \<Rightarrow> []);
          tags' = add_constant_tags c tags
      in ''_sc|'' @ check_name @ ''|'' @ str_int status
         @ (if truthy_int timestamp then ''|d:'' @ str_int (the timestamp) else [])
         @ (if truthy hostname then ''|h:'' @ the hostname else [])
         @ (if truthy tags' then ''|#'' @ join '','' (the tags') else [])
         @ (if message' \<noteq> [] then ''|m:'' @ message' else [])
         @ (if truthy (container_id c) then ''|c:'' @ the (container_id c) else []))"

definition service_check ::
  "client \<Rightarrow> string \<Rightarrow> int \<Rightarrow> string list option \<Rightarrow> int option \<Rightarrow> string option \<Rightarrow>
   string option \<Rightarrow> env \<Rightarrow> client" where
  "service_check c check_name status tags timestamp hostname message w =
     (let string = service_check_string c check_name status tags timestamp hostname message;
          c1 = (if telemetry c
                then c\<lparr>service_checks_count := service_checks_count c + 1\<rparr> else c)
      in call_send c1 string w)"

subsection \<open>The flush thread and the buffering toggle\<close>

definition MIN_FLUSH_INTERVAL :: rat where
  "MIN_FLUSH_INTERVAL = 1 / 10000"

text \<open>
  The attribute \<open>_flush_thread\<close> is assigned by \<open>_start_flush_thread\<close> and
  \<open>_stop_flush_thread\<close> only: \<open>Unset\<close> until then, and reading it raises
  \<open>AttributeError\<close>. The thread's own loop runs beside the caller and is not part of
  this model; starting, signalling and joining it are events of the trace.
\<close>

definition start_flush_thread :: "client \<Rightarrow> rat \<Rightarrow> client" where
  "start_flush_thread c interval =
     (if disable_buffering c \<or> flush_interval c \<le> MIN_FLUSH_INTERVAL then c
      else emit ThreadStart (c\<lparr>flush_thread := Thread interval\<rparr>))"



subsection \<open>Construction\<close>

text \<open>
  \<open>__init__\<close>, after the environment variables have been read: \<open>cfg_enabled\<close> is whether
  \<open>DD_DOGSTATSD_DISABLE\<close> leaves the client on, \<open>cfg_constant_tags\<close> the constant tags
  with the tags of the environment appended, \<open>cfg_container_id\<close> what
  \<open>_set_container_id\<close> leaves in \<open>_container_id\<close>, \<open>cfg_telemetry_host\<close> the resolved
  telemetry host, \<open>cfg_version\<close> the package's \<open>__version__\<close>, \<open>cfg_now\<close> the clock.
\<close>

record config =
  cfg_enabled :: bool
  cfg_max_buffer_len :: int
  cfg_socket_path :: "string option"
  cfg_namespace :: "string option"
  cfg_constant_tags :: "string list"
  cfg_default_sample_rate :: pynum
  cfg_container_id :: "string option"
  cfg_version :: string
  cfg_disable_telemetry :: bool
  cfg_telemetry_min_flush_interval :: rat
  cfg_telemetry_socket_path :: "string option"
  cfg_telemetry_host :: "string option"
  cfg_disable_buffering :: bool
  cfg_flush_interval :: rat
  cfg_now :: rat

definition UDP_OPTIMAL_PAYLOAD_LENGTH :: int where
  "UDP_OPTIMAL_PAYLOAD_LENGTH = 1432"

definition UDS_OPTIMAL_PAYLOAD_LENGTH :: int where
  "UDS_OPTIMAL_PAYLOAD_LENGTH = 8192"

definition init :: "config \<Rightarrow> client" where
  "init cfg =
     (let transport = (if cfg_socket_path cfg \<noteq> None then ''uds'' else ''udp'');
          c = \<lparr>enabled = cfg_enabled cfg,
               namespace = cfg_namespace cfg,
               constant_tags = cfg_constant_tags cfg,
               default_sample_rate = cfg_default_sample_rate cfg,
               container_id = cfg_container_id cfg,
               client_tags = [''client:py'', ''client_version:'' @ cfg_version cfg,
                              ''client_transport:'' @ transport],
               telemetry = (\<not> cfg_disable_telemetry cfg),
               telemetry_flush_interval = cfg_telemetry_min_flush_interval cfg,
               last_flush_time = cfg_now cfg,
               metrics_count = 0, events_count = 0, service_checks_count = 0,
               bytes_sent = 0, bytes_dropped = 0, packets_sent = 0, packets_dropped = 0,
               max_payload_size =
                 (if cfg_max_buffer_len cfg \<noteq> 0 then cfg_max_buffer_len cfg
                  else if cfg_socket_path cfg \<noteq> None then UDS_OPTIMAL_PAYLOAD_LENGTH
                  else UDP_OPTIMAL_PAYLOAD_LENGTH),
               current_buffer_total_size = 0,
               buffer = [],
               send = (if cfg_disable_buffering cfg then SendToServer else SendToBuffer),
               disable_buffering = cfg_disable_buffering cfg,
               flush_interval = cfg_flush_interval cfg,
               flush_thread = Unset,
               flush_thread_stop = False,
               socket = None,
               telemetry_socket = None,
               telemetry_socket_path = cfg_telemetry_socket_path cfg,
               telemetry_host =
                 (if \<not> truthy (cfg_telemetry_socket_path cfg) \<and> truthy (cfg_telemetry_host cfg)
                  then cfg_telemetry_host cfg else None),
               trace = []\<rparr>
      in start_flush_thread (reset_buffer c) (flush_interval c))"

subsection \<open>Concrete clients and worlds\<close>

text \<open>The defaults of \<open>__init__\<close>, with buffering switched on.\<close>

definition default_config :: config where
  "default_config =
     \<lparr>cfg_enabled = True, cfg_max_buffer_len = 0, cfg_socket_path = None,
      cfg_namespace = None, cfg_constant_tags = [], cfg_default_sample_rate = PyInt 1,
      cfg_container_id = None, cfg_version = ''0.45.0'', cfg_disable_telemetry = False,
      cfg_telemetry_min_flush_interval = 10, cfg_telemetry_socket_path = None,
      cfg_telemetry_host = None, cfg_disable_buffering = False,
      cfg_flush_interval = 3 / 10, cfg_now = 1000\<rparr>"

definition buffered_client :: client where
  "buffered_client = init default_config"

text \<open>A world where every socket connects and every send goes out.\<close>

definition io_ok :: io where
  "io_ok = \<lparr>connect = Inr 3, sock_send = (\<lambda>s b. None)\<rparr>"

definition io_fails :: "exn \<Rightarrow> io" where
  "io_fails e = \<lparr>connect = Inr 3, sock_send = (\<lambda>s b. Some e)\<rparr>"

definition quiet_env :: env where
  "quiet_env =
     \<lparr>random_value = 1 / 2, main_io = io_ok, telemetry_io = io_ok,
      time_check = 1001, time_reset = 1001\<rparr>"

text \<open>The Python side for the examples below: the one float they print is 0.5, and their
  tags have no character that \<open>normalize_tags\<close> replaces.\<close>

definition pylib0 :: pylib where
  "pylib0 = \<lparr>str_float = (\<lambda>r. ''0.5''), normalize_tags = (\<lambda>ts. ts)\<rparr>"

subsection \<open>Reading the trace\<close>

text \<open>The packets handed to \<open>_xmit_packet\<close>, in order: the payloads (\<open>payloads False\<close>) and
  the telemetry packets (\<open>payloads True\<close>).\<close>

fun payload_of :: "bool \<Rightarrow> event \<Rightarrow> string list" where
  "payload_of t (Xmit p t') = (if t = t' then [p] else [])"
| "payload_of t e = []"

definition payloads :: "bool \<Rightarrow> event list \<Rightarrow> string list" where
  "payloads t tr = concat (map (payload_of t) tr)"

text \<open>The buffer's size field is the sum of its packets' lengths, one separator each.\<close>

definition buffer_inv :: "client \<Rightarrow> bool" where
  "buffer_inv c = (current_buffer_total_size c = (\<Sum>p\<leftarrow>buffer c. int (length p) + 1))"

text \<open>What a transmission leaves alone: everything but the sockets, the four sent and
  dropped counters and the trace.\<close>

definition io_frame :: "client \<Rightarrow> client" where
  "io_frame c =
     c\<lparr>socket := None, telemetry_socket := None, packets_sent := 0, bytes_sent := 0,
       bytes_dropped := 0, packets_dropped := 0, trace := []\<rparr>"

text \<open>What \<open>_send_to_server\<close> leaves alone: besides the above, not the three submission
  counters and the time of the last telemetry flush, which a telemetry flush resets; and
  what \<open>flush\<close> leaves alone: besides those, not the buffer and its size.\<close>

definition srv_frame :: "client \<Rightarrow> client" where
  "srv_frame c =
     (io_frame c)\<lparr>metrics_count := 0, events_count := 0, service_checks_count := 0,
                 last_flush_time := 0\<rparr>"

definition flush_frame :: "client \<Rightarrow> client" where
  "flush_frame c = (srv_frame c)\<lparr>buffer := [], current_buffer_total_size := 0\<rparr>"

text \<open>A client with a payload limit of 20 characters, and a packet longer than the
  default limit of 1432.\<close>

definition small_client :: client where
  "small_client = init (default_config\<lparr>cfg_max_buffer_len := 20\<rparr>)"

definition long_packet :: string where
  "long_packet = replicate 1500 (CHR ''a'') @ '':1|g''"

text \<open>The client as \<open>DogStatsd()\<close> builds it (buffering off), and a world eleven seconds
  later, when a telemetry flush is due.\<close>

definition unbuffered_client :: client where
  "unbuffered_client = init (default_config\<lparr>cfg_disable_buffering := True\<rparr>)"

definition late_env :: env where
  "late_env = quiet_env\<lparr>time_check := 1011, time_reset := 1011\<rparr>"

text \<open>The client as \<open>_report\<close> hands it to \<open>_send\<close>, one metric counted, and as it is
  after the payload went out.\<close>

definition counted_client :: client where
  "counted_client = unbuffered_client\<lparr>metrics_count := 1\<rparr>"

definition after_payload :: client where
  "after_payload = snd (xmit_packet counted_client (''a:1|g'' @ [NL]) False io_ok)"

definition telemetry_down_env :: env where
  "telemetry_down_env = late_env\<lparr>telemetry_io := io_fails (SocketError EAGAIN)\<rparr>"

text \<open>The packet of \<open>gauge("\<acute>e", 1)\<close> with U+00E9 as the metric's name: six characters,
  seven bytes.\<close>

definition accent_packet :: string where
  "accent_packet = [CHR 0xE9] @ '':1|g'' @ [NL]"

text \<open>An event with a title of 8170 letters, no message and a hostname.\<close>

definition long_title :: string where
  "long_title = replicate 8170 (CHR ''a'')"

text \<open>A client with one constant tag.\<close>

definition tagged_client :: client where
  "tagged_client = init (default_config\<lparr>cfg_constant_tags := [''env:prod'']\<rparr>)"

subsection \<open>The escaping, in the specification's words\<close>

text \<open>
  Following the specification: each newline becomes backslash, \<open>n\<close>; in a service-check
  message each \<open>m\<close> that a colon follows gets a backslash between the two. Every other
  character stays where it is.
\<close>

definition escape_newlines_spec :: "string \<Rightarrow> string" where
  "escape_newlines_spec s = concat (map (\<lambda>c. if c = NL then [BACKSLASH, CHR ''n''] else [c]) s)"

fun escape_m_colon_spec :: "string \<Rightarrow> string" where
  "escape_m_colon_spec [] = []"
| "escape_m_colon_spec [c] = [c]"
| "escape_m_colon_spec (c # d # cs) =
     (if c = CHR ''m'' \<and> d = CHR '':''
      then c # BACKSLASH # escape_m_colon_spec (d # cs)
      else c # escape_m_colon_spec (d # cs))"

subsection \<open>Reading the trace of a toggle\<close>

fun toggle_event :: "event \<Rightarrow> bool" where
  "toggle_event (Acquire l) = (l = ToggleLock)"
| "toggle_event (Release l) = (l = ToggleLock)"
| "toggle_event e = False"

text \<open>\<open>c'\<close> has the trace of \<open>c\<close> and, after it, events that leave the toggle lock alone.\<close>

definition extends :: "client \<Rightarrow> client \<Rightarrow> bool" where
  "extends c c' =
     (take (length (trace c)) (trace c') = trace c \<and>
      \<not> list_ex toggle_event (drop (length (trace c)) (trace c')))"





section \<open>What a transmission changes\<close>

lemma emit_simps [simp]:
  "trace (emit e c) = trace c @ [e]"
  "io_frame (emit e c) = io_frame c"
  "telemetry (emit e c) = telemetry c"
  "socket (emit e c) = socket c"
  "telemetry_socket (emit e c) = telemetry_socket c"
  "packets_sent (emit e c) = packets_sent c"
  "bytes_sent (emit e c) = bytes_sent c"
  "packets_dropped (emit e c) = packets_dropped c"
  "bytes_dropped (emit e c) = bytes_dropped c"
  by (simp_all add: emit_def io_frame_def)

lemma payloads_simps [simp]:
  "payloads t [] = []"
  "payloads t (tr @ tr') = payloads t tr @ payloads t tr'"
  "payloads t (e # tr) = payload_of t e @ payloads t tr"
  by (simp_all add: payloads_def)

lemma io_frame_upd [simp]:
  "io_frame (c\<lparr>socket := s\<rparr>) = io_frame c"
  "io_frame (c\<lparr>telemetry_socket := s\<rparr>) = io_frame c"
  "io_frame (c\<lparr>packets_sent := n\<rparr>) = io_frame c"
  "io_frame (c\<lparr>bytes_sent := n\<rparr>) = io_frame c"
  "io_frame (c\<lparr>packets_dropped := n\<rparr>) = io_frame c"
  "io_frame (c\<lparr>bytes_dropped := n\<rparr>) = io_frame c"
  "io_frame (c\<lparr>trace := tr\<rparr>) = io_frame c"
  by (simp_all add: io_frame_def)

lemma close_socket_frame [simp]:
  "io_frame (close_socket c) = io_frame c"
  "payloads t (trace (close_socket c)) = payloads t (trace c)"
  "telemetry (close_socket c) = telemetry c"
  "packets_sent (close_socket c) = packets_sent c"
  "bytes_sent (close_socket c) = bytes_sent c"
  "packets_dropped (close_socket c) = packets_dropped c"
  "bytes_dropped (close_socket c) = bytes_dropped c"
  "socket (close_socket c) = None"
  "telemetry_socket (close_socket c) = None"
  by (simp_all add: close_socket_def Let_def split: option.splits)

lemma get_socket_frame [simp]:
  "io_frame (snd (get_socket c t w)) = io_frame c"
  "payloads t' (trace (snd (get_socket c t w))) = payloads t' (trace c)"
  "telemetry (snd (get_socket c t w)) = telemetry c"
  "packets_sent (snd (get_socket c t w)) = packets_sent c"
  "bytes_sent (snd (get_socket c t w)) = bytes_sent c"
  "packets_dropped (snd (get_socket c t w)) = packets_dropped c"
  "bytes_dropped (snd (get_socket c t w)) = bytes_dropped c"
  by (simp_all add: get_socket_def Let_def split: option.splits sum.splits)

lemma mysocket_frame [simp]:
  "io_frame (snd (mysocket c t w)) = io_frame c"
  "payloads t' (trace (snd (mysocket c t w))) = payloads t' (trace c)"
  "telemetry (snd (mysocket c t w)) = telemetry c"
  "packets_sent (snd (mysocket c t w)) = packets_sent c"
  "bytes_sent (snd (mysocket c t w)) = bytes_sent c"
  "packets_dropped (snd (mysocket c t w)) = packets_dropped c"
  "bytes_dropped (snd (mysocket c t w)) = bytes_dropped c"
  by (simp_all add: mysocket_def split: option.splits)

lemma io_frameD:
  assumes "io_frame c' = io_frame c"
  shows "buffer c' = buffer c"
    and "current_buffer_total_size c' = current_buffer_total_size c"
    and "max_payload_size c' = max_payload_size c"
    and "telemetry c' = telemetry c"
    and "metrics_count c' = metrics_count c"
    and "events_count c' = events_count c"
    and "service_checks_count c' = service_checks_count c"
    and "last_flush_time c' = last_flush_time c"
    and "telemetry_flush_interval c' = telemetry_flush_interval c"
    and "send c' = send c"
    and "disable_buffering c' = disable_buffering c"
    and "flush_interval c' = flush_interval c"
    and "flush_thread c' = flush_thread c"
    and "flush_thread_stop c' = flush_thread_stop c"
    and "constant_tags c' = constant_tags c"
    and "client_tags c' = client_tags c"
    and "enabled c' = enabled c"
  using arg_cong [OF assms, of buffer] arg_cong [OF assms, of current_buffer_total_size]
    arg_cong [OF assms, of max_payload_size] arg_cong [OF assms, of telemetry]
    arg_cong [OF assms, of metrics_count] arg_cong [OF assms, of events_count]
    arg_cong [OF assms, of service_checks_count] arg_cong [OF assms, of last_flush_time]
    arg_cong [OF assms, of telemetry_flush_interval] arg_cong [OF assms, of send]
    arg_cong [OF assms, of disable_buffering] arg_cong [OF assms, of flush_interval]
    arg_cong [OF assms, of flush_thread] arg_cong [OF assms, of flush_thread_stop]
    arg_cong [OF assms, of constant_tags] arg_cong [OF assms, of client_tags]
    arg_cong [OF assms, of enabled]
  by (simp_all add: io_frame_def)

lemma xmit_try_frame [simp]:
  "io_frame (snd (xmit_try c p t w)) = io_frame c"
  "payloads t' (trace (snd (xmit_try c p t w))) = payloads t' (trace c)"
  "telemetry (snd (xmit_try c p t w)) = telemetry c"
  "packets_dropped (snd (xmit_try c p t w)) = packets_dropped c"
  "bytes_dropped (snd (xmit_try c p t w)) = bytes_dropped c"
proof -
  obtain r c1 where m: "mysocket c t w = (r, c1)" by (cases "mysocket c t w")
  have c1: "io_frame c1 = io_frame c" "payloads t' (trace c1) = payloads t' (trace c)"
    "telemetry c1 = telemetry c" "packets_dropped c1 = packets_dropped c"
    "bytes_dropped c1 = bytes_dropped c"
    using mysocket_frame [where c=c and t=t and w=w] m by simp_all
  show "io_frame (snd (xmit_try c p t w)) = io_frame c"
    "payloads t' (trace (snd (xmit_try c p t w))) = payloads t' (trace c)"
    "telemetry (snd (xmit_try c p t w)) = telemetry c"
    "packets_dropped (snd (xmit_try c p t w)) = packets_dropped c"
    "bytes_dropped (snd (xmit_try c p t w)) = bytes_dropped c"
    using c1 by (simp_all add: xmit_try_def m split: sum.splits option.splits)
qed

lemma xmit_try_sent:
  "packets_sent (snd (xmit_try c p t w)) =
     packets_sent c + (if fst (xmit_try c p t w) = None \<and> \<not> t \<and> telemetry c then 1 else 0)"
  "bytes_sent (snd (xmit_try c p t w)) =
     bytes_sent c + (if fst (xmit_try c p t w) = None \<and> \<not> t \<and> telemetry c then int (length p) else 0)"
proof -
  obtain r c1 where m: "mysocket c t w = (r, c1)" by (cases "mysocket c t w")
  have c1: "telemetry c1 = telemetry c" "packets_sent c1 = packets_sent c"
    "bytes_sent c1 = bytes_sent c"
    using mysocket_frame [where c=c and t=t and w=w] m by simp_all
  show "packets_sent (snd (xmit_try c p t w)) =
     packets_sent c + (if fst (xmit_try c p t w) = None \<and> \<not> t \<and> telemetry c then 1 else 0)"
  "bytes_sent (snd (xmit_try c p t w)) =
     bytes_sent c + (if fst (xmit_try c p t w) = None \<and> \<not> t \<and> telemetry c then int (length p) else 0)"
    using c1 by (simp_all add: xmit_try_def m split: sum.splits option.splits)
qed

lemma xmit_except_frame [simp]:
  "io_frame (xmit_except e c) = io_frame c"
  "payloads t' (trace (xmit_except e c)) = payloads t' (trace c)"
  "telemetry (xmit_except e c) = telemetry c"
  "packets_sent (xmit_except e c) = packets_sent c"
  "bytes_sent (xmit_except e c) = bytes_sent c"
  "packets_dropped (xmit_except e c) = packets_dropped c"
  "bytes_dropped (xmit_except e c) = bytes_dropped c"
  by (cases e; simp)+

lemma xmit_packet_fst:
  "fst (xmit_packet c p t w) = (fst (xmit_try (emit (Xmit p t) c) p t w) = None)"
  by (simp add: xmit_packet_def Let_def split: prod.splits option.splits)

lemma xmit_packet_frame [simp]:
  "io_frame (snd (xmit_packet c p t w)) = io_frame c"
  "telemetry (snd (xmit_packet c p t w)) = telemetry c"
proof -
  obtain r c1 where m: "xmit_try (emit (Xmit p t) c) p t w = (r, c1)"
    by (cases "xmit_try (emit (Xmit p t) c) p t w")
  have c1: "io_frame c1 = io_frame c" "telemetry c1 = telemetry c"
    using xmit_try_frame [where c="emit (Xmit p t) c" and p=p and t=t and w=w] m by simp_all
  show "io_frame (snd (xmit_packet c p t w)) = io_frame c"
    "telemetry (snd (xmit_packet c p t w)) = telemetry c"
    using c1 by (simp_all add: xmit_packet_def m Let_def split: option.splits)
qed

lemma xmit_packet_payloads [simp]:
  "payloads t' (trace (snd (xmit_packet c p t w))) =
     payloads t' (trace c) @ (if t' = t then [p] else [])"
proof -
  obtain r c1 where m: "xmit_try (emit (Xmit p t) c) p t w = (r, c1)"
    by (cases "xmit_try (emit (Xmit p t) c) p t w")
  have c1: "payloads t' (trace c1) = payloads t' (trace c) @ (if t' = t then [p] else [])"
    using xmit_try_frame(2) [where c="emit (Xmit p t) c" and p=p and t=t and w=w and t'=t'] m
    by simp
  have eq: "trace (snd (xmit_packet c p t w)) =
      (case r of None \<Rightarrow> trace c1 | Some e \<Rightarrow> trace (xmit_except e c1))"
    by (simp add: xmit_packet_def m Let_def split: option.splits)
  show ?thesis
    unfolding eq using c1 by (cases r) simp_all
qed

lemma xmit_packet_counters:
  "packets_sent (snd (xmit_packet c p t w)) =
     packets_sent c + (if fst (xmit_packet c p t w) \<and> \<not> t \<and> telemetry c then 1 else 0)"
  "bytes_sent (snd (xmit_packet c p t w)) =
     bytes_sent c + (if fst (xmit_packet c p t w) \<and> \<not> t \<and> telemetry c then int (length p) else 0)"
  "packets_dropped (snd (xmit_packet c p t w)) =
     packets_dropped c + (if \<not> fst (xmit_packet c p t w) \<and> \<not> t \<and> telemetry c then 1 else 0)"
  "bytes_dropped (snd (xmit_packet c p t w)) =
     bytes_dropped c + (if \<not> fst (xmit_packet c p t w) \<and> \<not> t \<and> telemetry c then int (length p) else 0)"
proof -
  obtain r c1 where m: "xmit_try (emit (Xmit p t) c) p t w = (r, c1)"
    by (cases "xmit_try (emit (Xmit p t) c) p t w")
  have c1: "telemetry c1 = telemetry c" "packets_dropped c1 = packets_dropped c"
    "bytes_dropped c1 = bytes_dropped c"
    using xmit_try_frame [where c="emit (Xmit p t) c" and p=p and t=t and w=w] m by simp_all
  have s1: "packets_sent c1 = packets_sent c + (if r = None \<and> \<not> t \<and> telemetry c then 1 else 0)"
    "bytes_sent c1 = bytes_sent c + (if r = None \<and> \<not> t \<and> telemetry c then int (length p) else 0)"
    using xmit_try_sent [where c="emit (Xmit p t) c" and p=p and t=t and w=w] m by simp_all
  show "packets_sent (snd (xmit_packet c p t w)) =
     packets_sent c + (if fst (xmit_packet c p t w) \<and> \<not> t \<and> telemetry c then 1 else 0)"
  "bytes_sent (snd (xmit_packet c p t w)) =
     bytes_sent c + (if fst (xmit_packet c p t w) \<and> \<not> t \<and> telemetry c then int (length p) else 0)"
  "packets_dropped (snd (xmit_packet c p t w)) =
     packets_dropped c + (if \<not> fst (xmit_packet c p t w) \<and> \<not> t \<and> telemetry c then 1 else 0)"
  "bytes_dropped (snd (xmit_packet c p t w)) =
     bytes_dropped c + (if \<not> fst (xmit_packet c p t w) \<and> \<not> t \<and> telemetry c then int (length p) else 0)"
    using c1 s1 by (simp_all add: xmit_packet_def m Let_def split: option.splits)
qed

section \<open>Sending a payload, flushing the buffer\<close>

lemma srv_frame_of_io: "io_frame c' = io_frame c \<Longrightarrow> srv_frame c' = srv_frame c"
  by (simp add: srv_frame_def)

lemma flush_frame_of_srv: "srv_frame c' = srv_frame c \<Longrightarrow> flush_frame c' = flush_frame c"
  by (simp add: flush_frame_def)

lemma srv_frame_upd [simp]:
  "srv_frame (c\<lparr>packets_sent := n\<rparr>) = srv_frame c"
  "srv_frame (c\<lparr>bytes_sent := n\<rparr>) = srv_frame c"
  "srv_frame (c\<lparr>packets_dropped := n\<rparr>) = srv_frame c"
  "srv_frame (c\<lparr>bytes_dropped := n\<rparr>) = srv_frame c"
  "srv_frame (c\<lparr>last_flush_time := x\<rparr>) = srv_frame c"
  "srv_frame (c\<lparr>trace := tr\<rparr>) = srv_frame c"
  "srv_frame (reset_telemetry c x) = srv_frame c"
  "srv_frame (emit e c) = srv_frame c"
  by (simp_all add: srv_frame_def io_frame_def reset_telemetry_def emit_def)

lemma flush_frame_upd [simp]:
  "flush_frame (c\<lparr>buffer := b\<rparr>) = flush_frame c"
  "flush_frame (c\<lparr>current_buffer_total_size := n\<rparr>) = flush_frame c"
  "flush_frame (c\<lparr>trace := tr\<rparr>) = flush_frame c"
  "flush_frame (emit e c) = flush_frame c"
  by (simp_all add: flush_frame_def srv_frame_def io_frame_def emit_def)

lemma srv_frameD:
  assumes "srv_frame c' = srv_frame c"
  shows "buffer c' = buffer c"
    and "current_buffer_total_size c' = current_buffer_total_size c"
    and "max_payload_size c' = max_payload_size c"
    and "telemetry c' = telemetry c"
    and "telemetry_flush_interval c' = telemetry_flush_interval c"
    and "send c' = send c"
    and "disable_buffering c' = disable_buffering c"
    and "flush_interval c' = flush_interval c"
    and "flush_thread c' = flush_thread c"
    and "flush_thread_stop c' = flush_thread_stop c"
  using arg_cong [OF assms, of buffer] arg_cong [OF assms, of current_buffer_total_size]
    arg_cong [OF assms, of max_payload_size] arg_cong [OF assms, of telemetry]
    arg_cong [OF assms, of telemetry_flush_interval] arg_cong [OF assms, of send]
    arg_cong [OF assms, of disable_buffering] arg_cong [OF assms, of flush_interval]
    arg_cong [OF assms, of flush_thread] arg_cong [OF assms, of flush_thread_stop]
  by (simp_all add: srv_frame_def io_frame_def)

lemma flush_frameD:
  assumes "flush_frame c' = flush_frame c"
  shows "max_payload_size c' = max_payload_size c"
    and "telemetry c' = telemetry c"
    and "send c' = send c"
    and "disable_buffering c' = disable_buffering c"
    and "flush_interval c' = flush_interval c"
    and "flush_thread c' = flush_thread c"
    and "flush_thread_stop c' = flush_thread_stop c"
  using arg_cong [OF assms, of max_payload_size] arg_cong [OF assms, of telemetry]
    arg_cong [OF assms, of send]
    arg_cong [OF assms, of disable_buffering] arg_cong [OF assms, of flush_interval]
    arg_cong [OF assms, of flush_thread] arg_cong [OF assms, of flush_thread_stop]
  by (simp_all add: flush_frame_def srv_frame_def io_frame_def)

lemma send_to_server_frame [simp]: "srv_frame (send_to_server c p w) = srv_frame c"
proof -
  define c1 where "c1 = snd (xmit_packet c (p @ [NL]) False (main_io w))"
  have f1: "srv_frame c1 = srv_frame c"
    unfolding c1_def by (rule srv_frame_of_io) simp
  obtain ok c2 where x: "xmit_packet c1 (flush_telemetry c1) True (telemetry_io w) = (ok, c2)"
    by (cases "xmit_packet c1 (flush_telemetry c1) True (telemetry_io w)")
  have "io_frame c2 = io_frame c1"
    using xmit_packet_frame(1) [of c1 "flush_telemetry c1" True "telemetry_io w"] x by simp
  then have f2: "srv_frame c2 = srv_frame c"
    using f1 srv_frame_of_io [of c2 c1] by simp
  have eq: "send_to_server c p w =
     (if is_telemetry_flush_time c1 (time_check w) then
        (if ok then (let c3 = reset_telemetry c2 (time_reset w)
                    in c3\<lparr>packets_sent := packets_sent c3 + 1,
                           bytes_sent := bytes_sent c3 + int (length (flush_telemetry c1))\<rparr>)
         else c2\<lparr>last_flush_time := time_reset w,
                      bytes_dropped := bytes_dropped c2 + int (length (flush_telemetry c1)),
                      packets_dropped := packets_dropped c2 + 1\<rparr>)
      else c1)"
    unfolding send_to_server_def c1_def [symmetric] Let_def x by (cases ok) simp_all
  show ?thesis
    unfolding eq using f1 f2 by (simp add: Let_def)
qed

lemma send_to_server_payloads [simp]:
  "payloads False (trace (send_to_server c p w)) = payloads False (trace c) @ [p @ [NL]]"
proof -
  define c1 where "c1 = snd (xmit_packet c (p @ [NL]) False (main_io w))"
  have f1: "payloads False (trace c1) = payloads False (trace c) @ [p @ [NL]]"
    unfolding c1_def by simp
  obtain ok c2 where x: "xmit_packet c1 (flush_telemetry c1) True (telemetry_io w) = (ok, c2)"
    by (cases "xmit_packet c1 (flush_telemetry c1) True (telemetry_io w)")
  have f2: "payloads False (trace c2) = payloads False (trace c) @ [p @ [NL]]"
    using xmit_packet_payloads [of False c1 "flush_telemetry c1" True "telemetry_io w"] x f1
    by simp
  have tr: "trace (reset_telemetry c2 x) = trace c2" for x
    by (simp add: reset_telemetry_def)
  show ?thesis
    using f1 f2 tr
    by (cases ok) (simp_all add: send_to_server_def Let_def c1_def [symmetric] x)
qed

lemma reset_buffer_simps [simp]:
  "buffer (reset_buffer c) = []"
  "current_buffer_total_size (reset_buffer c) = 0"
  "flush_frame (reset_buffer c) = flush_frame c"
  "payloads t (trace (reset_buffer c)) = payloads t (trace c)"
  by (simp_all add: reset_buffer_def emit_def flush_frame_def srv_frame_def io_frame_def)

lemma emit_buffer [simp]:
  "buffer (emit e c) = buffer c"
  "current_buffer_total_size (emit e c) = current_buffer_total_size c"
  "max_payload_size (emit e c) = max_payload_size c"
  by (simp_all add: emit_def)

lemma flush_nonempty:
  assumes "buffer c \<noteq> []"
  shows "buffer (flush c w) = []"
    and "current_buffer_total_size (flush c w) = 0"
    and "payloads False (trace (flush c w)) =
           payloads False (trace c) @ [join [NL] (buffer c) @ [NL]]"
  using assms by (simp_all add: flush_def Let_def)

lemma flush_empty:
  assumes "buffer c = []"
  shows "flush c w = c\<lparr>trace := trace c @ [Acquire BufferLock, Release BufferLock]\<rparr>"
  using assms by (simp add: flush_def Let_def emit_def)

lemma flush_flush_frame [simp]: "flush_frame (flush c w) = flush_frame c"
proof (cases "buffer c = []")
  case True
  then show ?thesis by (simp add: flush_empty)
next
  case False
  have "flush_frame (send_to_server (emit (Acquire BufferLock) c)
          (join [NL] (buffer (emit (Acquire BufferLock) c))) w) = flush_frame c"
    using flush_frame_of_srv [OF send_to_server_frame] by simp
  with False show ?thesis by (simp add: flush_def Let_def)
qed

lemma flush_max [simp]: "max_payload_size (flush c w) = max_payload_size c"
  by (rule flush_frameD(1)) simp

section \<open>Appending to the buffer\<close>

lemma buffer_inv_empty: "buffer_inv c \<Longrightarrow> buffer c = [] \<Longrightarrow> current_buffer_total_size c = 0"
  by (simp add: buffer_inv_def)

lemma should_flush_emit [simp]: "should_flush (emit e c) n = should_flush c n"
  by (simp add: should_flush_def)

lemma send_to_buffer_over:
  assumes "buffer_inv c" and "should_flush c (int (length packet))"
  shows "payloads False (trace (send_to_buffer c packet w)) =
           payloads False (trace c) @
             (if buffer c = [] then [] else [join [NL] (buffer c) @ [NL]])"
    and "buffer (send_to_buffer c packet w) = [packet]"
    and "current_buffer_total_size (send_to_buffer c packet w) = int (length packet) + 1"
proof -
  have "payloads False (trace (send_to_buffer c packet w)) =
           payloads False (trace c) @
             (if buffer c = [] then [] else [join [NL] (buffer c) @ [NL]]) \<and>
        buffer (send_to_buffer c packet w) = [packet] \<and>
        current_buffer_total_size (send_to_buffer c packet w) = int (length packet) + 1"
  proof (cases "buffer c = []")
    case True
    with assms(1) have "current_buffer_total_size c = 0" by (simp add: buffer_inv_empty)
    with True assms(2) show ?thesis
      by (simp add: send_to_buffer_def Let_def flush_empty)
  next
    case False
    then have ne: "buffer (emit (Acquire BufferLock) c) \<noteq> []" by simp
    show ?thesis
      using False assms(2) flush_nonempty [OF ne, of w]
      by (simp add: send_to_buffer_def Let_def)
  qed
  then show "payloads False (trace (send_to_buffer c packet w)) =
           payloads False (trace c) @
             (if buffer c = [] then [] else [join [NL] (buffer c) @ [NL]])"
    and "buffer (send_to_buffer c packet w) = [packet]"
    and "current_buffer_total_size (send_to_buffer c packet w) = int (length packet) + 1"
    by simp_all
qed

lemma send_to_buffer_under:
  assumes "\<not> should_flush c (int (length packet))"
  shows "send_to_buffer c packet w =
           c\<lparr>buffer := buffer c @ [packet],
             current_buffer_total_size := current_buffer_total_size c + (int (length packet) + 1),
             trace := trace c @ [Acquire BufferLock, Release BufferLock]\<rparr>"
  using assms by (simp add: send_to_buffer_def Let_def) (simp add: emit_def)

text \<open>
  C1. Appending a packet through the buffered send path, on a client whose size field
  is the sum over its buffer (as it is after \<open>__init__\<close>, after every append and after
  every flush). When the size of the buffer plus the packet's length plus 1 exceeds the
  maximum payload size, the buffer is flushed
  once before the append: the buffered packets, joined with newlines, are the one
  payload handed to the server-send path (a flush of an empty buffer hands over
  nothing), and the packet is then the buffer's only content, the size being its length
  plus 1. Otherwise nothing is sent: the client changes in its buffer, which has the
  packet appended, in the size, which grows by the packet's length plus 1, and in the
  trace, where the buffer lock is taken and released.
\<close>

theorem send_to_buffer_flushes_once:
  assumes "buffer_inv c"
  shows "(current_buffer_total_size c + int (length packet) + 1 > max_payload_size c \<longrightarrow>
            payloads False (trace (send_to_buffer c packet w)) =
              payloads False (trace c) @
                (if buffer c = [] then [] else [join [NL] (buffer c) @ [NL]]) \<and>
            buffer (send_to_buffer c packet w) = [packet] \<and>
            current_buffer_total_size (send_to_buffer c packet w) = int (length packet) + 1) \<and>
         (\<not> current_buffer_total_size c + int (length packet) + 1 > max_payload_size c \<longrightarrow>
            send_to_buffer c packet w =
              c\<lparr>buffer := buffer c @ [packet],
                current_buffer_total_size :=
                  current_buffer_total_size c + (int (length packet) + 1),
                trace := trace c @ [Acquire BufferLock, Release BufferLock]\<rparr>)"
proof -
  have sf: "should_flush c (int (length packet)) =
      (current_buffer_total_size c + int (length packet) + 1 > max_payload_size c)"
    by (simp add: should_flush_def)
  show ?thesis
    using send_to_buffer_over [OF assms, of packet w] send_to_buffer_under [of c packet w]
    unfolding sf by blast
qed

lemma init_buffer:
  "buffer (init cfg) = []"
  "current_buffer_total_size (init cfg) = 0"
  "payloads t (trace (init cfg)) = []"
  "max_payload_size (init cfg) =
     (if cfg_max_buffer_len cfg \<noteq> 0 then cfg_max_buffer_len cfg
      else if cfg_socket_path cfg \<noteq> None then UDS_OPTIMAL_PAYLOAD_LENGTH
      else UDP_OPTIMAL_PAYLOAD_LENGTH)"
  by (simp_all add: init_def Let_def start_flush_thread_def reset_buffer_def emit_def)

lemma small_client_fields:
  "buffer small_client = []"
  "current_buffer_total_size small_client = 0"
  "payloads t (trace small_client) = []"
  "max_payload_size small_client = 20"
  by (simp_all add: small_client_def init_buffer default_config_def)

lemma buffered_client_fields:
  "buffer buffered_client = []"
  "current_buffer_total_size buffered_client = 0"
  "payloads t (trace buffered_client) = []"
  "max_payload_size buffered_client = 1432"
  by (simp_all add: buffered_client_def init_buffer default_config_def
        UDP_OPTIMAL_PAYLOAD_LENGTH_def)

theorem send_to_buffer_flushes_once_witness:
  "buffer_inv (send_to_buffer small_client ''a:1|g'' quiet_env) \<and>
   send_to_buffer small_client ''a:1|g'' quiet_env =
     small_client\<lparr>buffer := [''a:1|g''], current_buffer_total_size := 6,
                  trace := trace small_client @ [Acquire BufferLock, Release BufferLock]\<rparr> \<and>
   payloads False (trace (send_to_buffer (send_to_buffer small_client ''a:1|g'' quiet_env)
      ''users.online:123|g'' quiet_env)) = [''a:1|g'' @ [NL]] \<and>
   buffer (send_to_buffer (send_to_buffer small_client ''a:1|g'' quiet_env)
      ''users.online:123|g'' quiet_env) = [''users.online:123|g''] \<and>
   current_buffer_total_size (send_to_buffer (send_to_buffer small_client ''a:1|g'' quiet_env)
      ''users.online:123|g'' quiet_env) = 19"
proof -
  have i0: "buffer_inv small_client"
    by (simp add: buffer_inv_def small_client_fields)
  have s1: "send_to_buffer small_client ''a:1|g'' quiet_env =
     small_client\<lparr>buffer := [''a:1|g''], current_buffer_total_size := 6,
                  trace := trace small_client @ [Acquire BufferLock, Release BufferLock]\<rparr>"
    using send_to_buffer_flushes_once [OF i0, of "''a:1|g''" quiet_env]
    by (simp add: small_client_fields)
  have i1: "buffer_inv (send_to_buffer small_client ''a:1|g'' quiet_env)"
    unfolding s1 by (simp add: buffer_inv_def)
  show ?thesis
    using send_to_buffer_flushes_once [OF i1, of "''users.online:123|g''" quiet_env] i1 s1
    by (simp add: small_client_fields)
qed

lemma should_flush_iff:
  "should_flush c n = (current_buffer_total_size c + n + 1 > max_payload_size c)"
  by (simp add: should_flush_def)

lemma send_to_buffer_max [simp]:
  "max_payload_size (send_to_buffer c packet w) = max_payload_size c"
  by (simp add: send_to_buffer_def Let_def)

lemma send_to_buffer_inv:
  assumes "buffer_inv c"
  shows "buffer_inv (send_to_buffer c packet w)"
proof (cases "should_flush c (int (length packet))")
  case True
  show ?thesis
    using send_to_buffer_over(2,3) [OF assms True, of w] by (simp add: buffer_inv_def)
next
  case False
  show ?thesis
    using assms by (simp add: send_to_buffer_under [OF False] buffer_inv_def)
qed

lemma buffer_inv_init: "buffer_inv (init cfg)"
  by (simp add: buffer_inv_def init_buffer)

lemma buffer_inv_flush: "buffer_inv c \<Longrightarrow> buffer_inv (flush c w)"
  by (cases "buffer c = []") (simp_all add: buffer_inv_def flush_empty flush_nonempty)

text \<open>
  C2, as the code has it. After an append the size of the buffer is at most the maximum
  payload size whenever the packet's length plus 1 is; a packet whose length plus 1 is
  above the maximum is alone in the buffer after the append, and the size is then its
  length plus 1, above the maximum. The size stays the sum over the buffer.
\<close>

theorem send_to_buffer_total_size_bound:
  assumes "buffer_inv c"
  shows "buffer_inv (send_to_buffer c packet w) \<and>
         (int (length packet) + 1 \<le> max_payload_size c \<longrightarrow>
            current_buffer_total_size (send_to_buffer c packet w)
              \<le> max_payload_size (send_to_buffer c packet w)) \<and>
         (int (length packet) + 1 > max_payload_size c \<longrightarrow>
            buffer (send_to_buffer c packet w) = [packet] \<and>
            current_buffer_total_size (send_to_buffer c packet w) = int (length packet) + 1)"
proof (cases "should_flush c (int (length packet))")
  case True
  show ?thesis
    using send_to_buffer_over(2,3) [OF assms True, of w] send_to_buffer_inv [OF assms, of packet w]
    by simp
next
  case False
  have "0 \<le> (\<Sum>p\<leftarrow>xs. int (length p) + 1)" for xs :: "string list"
    by (induction xs) simp_all
  then have "0 \<le> current_buffer_total_size c"
    using assms by (simp add: buffer_inv_def)
  moreover have "current_buffer_total_size c + int (length packet) + 1 \<le> max_payload_size c"
    using False by (simp add: should_flush_iff)
  ultimately show ?thesis
    using send_to_buffer_inv [OF assms, of packet w]
    by (simp add: send_to_buffer_under [OF False])
qed

theorem send_to_buffer_total_size_bound_witness:
  "buffer_inv small_client \<and>
   buffer_inv (send_to_buffer small_client ''a:1|g'' quiet_env) \<and>
   current_buffer_total_size (send_to_buffer small_client ''a:1|g'' quiet_env) \<le> 20 \<and>
   buffer (send_to_buffer small_client ''users.online:123|g:extra'' quiet_env)
     = [''users.online:123|g:extra''] \<and>
   current_buffer_total_size (send_to_buffer small_client ''users.online:123|g:extra'' quiet_env)
     = 25"
proof -
  have i0: "buffer_inv small_client"
    by (simp add: buffer_inv_def small_client_fields)
  show ?thesis
    using send_to_buffer_total_size_bound [OF i0, of "''a:1|g''" quiet_env]
      send_to_buffer_total_size_bound [OF i0, of "''users.online:123|g:extra''" quiet_env] i0
    by (simp add: small_client_fields)
qed

theorem send_to_buffer_total_size_counterexample:
  "current_buffer_total_size (send_to_buffer buffered_client long_packet quiet_env) = 1505 \<and>
   max_payload_size (send_to_buffer buffered_client long_packet quiet_env) = 1432"
proof -
  have i0: "buffer_inv buffered_client"
    by (simp add: buffer_inv_def buffered_client_fields)
  have len: "length long_packet = 1504"
    by (simp add: long_packet_def)
  have sf: "should_flush buffered_client (int (length long_packet))"
    by (simp add: should_flush_def buffered_client_fields len)
  show ?thesis
    using send_to_buffer_over(3) [OF i0 sf, of quiet_env]
    by (simp add: len buffered_client_fields)
qed

section \<open>The telemetry flush\<close>

lemma init_fields:
  "enabled (init cfg) = cfg_enabled cfg"
  "telemetry (init cfg) = (\<not> cfg_disable_telemetry cfg)"
  "telemetry_flush_interval (init cfg) = cfg_telemetry_min_flush_interval cfg"
  "last_flush_time (init cfg) = cfg_now cfg"
  "metrics_count (init cfg) = 0"
  "events_count (init cfg) = 0"
  "service_checks_count (init cfg) = 0"
  "bytes_sent (init cfg) = 0"
  "bytes_dropped (init cfg) = 0"
  "packets_sent (init cfg) = 0"
  "packets_dropped (init cfg) = 0"
  "send (init cfg) = (if cfg_disable_buffering cfg then SendToServer else SendToBuffer)"
  "disable_buffering (init cfg) = cfg_disable_buffering cfg"
  "flush_interval (init cfg) = cfg_flush_interval cfg"
  "socket (init cfg) = None"
  "telemetry_socket (init cfg) = None"
  "constant_tags (init cfg) = cfg_constant_tags cfg"
  "namespace (init cfg) = cfg_namespace cfg"
  "container_id (init cfg) = cfg_container_id cfg"
  "default_sample_rate (init cfg) = cfg_default_sample_rate cfg"
  by (simp_all add: init_def Let_def start_flush_thread_def reset_buffer_def emit_def)


lemma xmit_packet_ok:
  assumes "connect w = Inr s0" and "\<And>s b. sock_send w s b = None"
  shows "fst (xmit_packet c p t w)"
proof -
  have ms: "\<exists>s. fst (mysocket c' t w) = Inr s" for c'
    using assms(1)
    by (simp add: mysocket_def get_socket_def Let_def split: option.splits)
  have "fst (xmit_try c' p t w) = None" for c'
  proof -
    obtain r c1 where m: "mysocket c' t w = (r, c1)" by (cases "mysocket c' t w")
    from ms [of c'] m obtain s where "r = Inr s" by auto
    then show ?thesis using assms(2) m by (simp add: xmit_try_def)
  qed
  then show ?thesis by (simp add: xmit_packet_fst)
qed

lemma xmit_packet_fails:
  assumes "\<And>s b. sock_send w s b = Some e"
  shows "\<not> fst (xmit_packet c p t w)"
proof -
  have "fst (xmit_try c' p t w) \<noteq> None" for c'
    using assms
    by (cases "mysocket c' t w") (simp add: xmit_try_def split: sum.splits)
  then show ?thesis by (simp add: xmit_packet_fst)
qed

lemma send_to_server_no_flush:
  assumes "\<not> is_telemetry_flush_time (snd (xmit_packet c (packet @ [NL]) False (main_io w))) (time_check w)"
  shows "send_to_server c packet w = snd (xmit_packet c (packet @ [NL]) False (main_io w))"
  using assms by (simp add: send_to_server_def Let_def)

lemma send_to_server_flush_ok:
  assumes "c1 = snd (xmit_packet c (packet @ [NL]) False (main_io w))"
    and "is_telemetry_flush_time c1 (time_check w)"
    and "fst (xmit_packet c1 (flush_telemetry c1) True (telemetry_io w))"
  shows "send_to_server c packet w =
     (reset_telemetry (snd (xmit_packet c1 (flush_telemetry c1) True (telemetry_io w))) (time_reset w))
       \<lparr>packets_sent := 1, bytes_sent := int (length (flush_telemetry c1))\<rparr>"
proof -
  obtain ok c2 where x: "xmit_packet c1 (flush_telemetry c1) True (telemetry_io w) = (ok, c2)"
    by (cases "xmit_packet c1 (flush_telemetry c1) True (telemetry_io w)")
  with assms(3) have ok: "ok" by simp
  show ?thesis
    using assms(2) ok
    by (simp add: send_to_server_def Let_def assms(1) [symmetric] x reset_telemetry_def)
qed

lemma send_to_server_flush_failed:
  assumes "c1 = snd (xmit_packet c (packet @ [NL]) False (main_io w))"
    and "is_telemetry_flush_time c1 (time_check w)"
    and "\<not> fst (xmit_packet c1 (flush_telemetry c1) True (telemetry_io w))"
    and "c2 = snd (xmit_packet c1 (flush_telemetry c1) True (telemetry_io w))"
  shows "send_to_server c packet w =
     c2\<lparr>last_flush_time := time_reset w,
        bytes_dropped := bytes_dropped c2 + int (length (flush_telemetry c1)),
        packets_dropped := packets_dropped c2 + 1\<rparr>"
proof -
  obtain ok c2' where x: "xmit_packet c1 (flush_telemetry c1) True (telemetry_io w) = (ok, c2')"
    by (cases "xmit_packet c1 (flush_telemetry c1) True (telemetry_io w)")
  with assms(3,4) have ok: "\<not> ok" "c2' = c2" by simp_all
  show ?thesis
    using assms(2) ok
    by (simp add: send_to_server_def Let_def assms(1) [symmetric] x)
qed

lemma send_to_server_telemetry_payloads:
  "payloads True (trace (send_to_server c p w)) =
     payloads True (trace c) @
       (if is_telemetry_flush_time (snd (xmit_packet c (p @ [NL]) False (main_io w))) (time_check w)
        then [flush_telemetry (snd (xmit_packet c (p @ [NL]) False (main_io w)))] else [])"
proof -
  define c1 where "c1 = snd (xmit_packet c (p @ [NL]) False (main_io w))"
  have f1: "payloads True (trace c1) = payloads True (trace c)"
    unfolding c1_def by simp
  obtain ok c2 where x: "xmit_packet c1 (flush_telemetry c1) True (telemetry_io w) = (ok, c2)"
    by (cases "xmit_packet c1 (flush_telemetry c1) True (telemetry_io w)")
  have f2: "payloads True (trace c2) = payloads True (trace c) @ [flush_telemetry c1]"
    using xmit_packet_payloads [of True c1 "flush_telemetry c1" True "telemetry_io w"] x f1
    by simp
  have tr: "trace (reset_telemetry c2 x) = trace c2" for x
    by (simp add: reset_telemetry_def)
  show ?thesis
    using f1 f2 tr
    by (cases ok) (simp_all add: send_to_server_def Let_def c1_def [symmetric] x)
qed

text \<open>
  C3, as the code has it. When a telemetry flush is due after a payload, the telemetry
  packet is built from the counters as they stand after the payload (\<open>c1\<close>) and
  transmitted. If that succeeds, the three submission counters and the two drop
  counters are zero afterwards, while \<open>packets_sent\<close> is 1 and \<open>bytes_sent\<close> is the
  length of the telemetry packet, which is counted into the new window; the time of the
  last flush is the current time. If it fails, no counter is reset: the submission
  counters and the sent counters keep their values, \<open>bytes_dropped\<close> grows by the length
  of the telemetry packet and \<open>packets_dropped\<close> by one, and the time of the last flush
  is the current time all the same.
\<close>

theorem telemetry_flush_outcome:
  assumes "c1 = snd (xmit_packet c (packet @ [NL]) False (main_io w))"
    and "is_telemetry_flush_time c1 (time_check w)"
    and "x = xmit_packet c1 (flush_telemetry c1) True (telemetry_io w)"
    and "c' = send_to_server c packet w"
  shows "payloads True (trace c') = payloads True (trace c) @ [flush_telemetry c1] \<and>
         (fst x \<longrightarrow>
            metrics_count c' = 0 \<and> events_count c' = 0 \<and> service_checks_count c' = 0 \<and>
            bytes_dropped c' = 0 \<and> packets_dropped c' = 0 \<and>
            packets_sent c' = 1 \<and> bytes_sent c' = int (length (flush_telemetry c1)) \<and>
            last_flush_time c' = time_reset w) \<and>
         (\<not> fst x \<longrightarrow>
            metrics_count c' = metrics_count c1 \<and> events_count c' = events_count c1 \<and>
            service_checks_count c' = service_checks_count c1 \<and>
            bytes_sent c' = bytes_sent c1 \<and> packets_sent c' = packets_sent c1 \<and>
            bytes_dropped c' = bytes_dropped c1 + int (length (flush_telemetry c1)) \<and>
            packets_dropped c' = packets_dropped c1 + 1 \<and>
            last_flush_time c' = time_reset w)"
proof -
  have p: "payloads True (trace c') = payloads True (trace c) @ [flush_telemetry c1]"
    using assms(2) unfolding assms(4) assms(1) by (simp add: send_to_server_telemetry_payloads)
  have ok: "metrics_count c' = 0 \<and> events_count c' = 0 \<and> service_checks_count c' = 0 \<and>
            bytes_dropped c' = 0 \<and> packets_dropped c' = 0 \<and>
            packets_sent c' = 1 \<and> bytes_sent c' = int (length (flush_telemetry c1)) \<and>
            last_flush_time c' = time_reset w" if "fst x"
    using that unfolding assms(3) assms(4)
    by (simp add: send_to_server_flush_ok [OF assms(1) assms(2)] reset_telemetry_def)
  have failed: "metrics_count c' = metrics_count c1 \<and> events_count c' = events_count c1 \<and>
            service_checks_count c' = service_checks_count c1 \<and>
            bytes_sent c' = bytes_sent c1 \<and> packets_sent c' = packets_sent c1 \<and>
            bytes_dropped c' = bytes_dropped c1 + int (length (flush_telemetry c1)) \<and>
            packets_dropped c' = packets_dropped c1 + 1 \<and>
            last_flush_time c' = time_reset w" if nok: "\<not> fst x"
  proof -
    define c2 where "c2 = snd x"
    have c2: "c2 = snd (xmit_packet c1 (flush_telemetry c1) True (telemetry_io w))"
      by (simp add: c2_def assms(3))
    have fr: "io_frame c2 = io_frame c1"
      unfolding c2 by simp
    have cnt: "packets_sent c2 = packets_sent c1" "bytes_sent c2 = bytes_sent c1"
      "packets_dropped c2 = packets_dropped c1" "bytes_dropped c2 = bytes_dropped c1"
      unfolding c2 by (simp_all add: xmit_packet_counters)
    have c': "c' = c2\<lparr>last_flush_time := time_reset w,
        bytes_dropped := bytes_dropped c2 + int (length (flush_telemetry c1)),
        packets_dropped := packets_dropped c2 + 1\<rparr>"
      unfolding assms(4)
      using nok send_to_server_flush_failed [OF assms(1) assms(2) _ c2] by (simp add: assms(3))
    show ?thesis
      unfolding c' using cnt io_frameD(5,6,7) [OF fr] by simp
  qed
  show ?thesis
    using p ok failed by blast
qed

lemma io_simps [simp]:
  "connect io_ok = Inr 3"
  "sock_send io_ok s b = None"
  "connect (io_fails e) = Inr 3"
  "sock_send (io_fails e) s b = Some e"
  by (simp_all add: io_ok_def io_fails_def)

lemma env_simps [simp]:
  "main_io quiet_env = io_ok"
  "telemetry_io quiet_env = io_ok"
  "time_check quiet_env = 1001"
  "time_reset quiet_env = 1001"
  "random_value quiet_env = 1 / 2"
  "main_io late_env = io_ok"
  "telemetry_io late_env = io_ok"
  "time_check late_env = 1011"
  "time_reset late_env = 1011"
  "main_io telemetry_down_env = io_ok"
  "telemetry_io telemetry_down_env = io_fails (SocketError EAGAIN)"
  "time_check telemetry_down_env = 1011"
  "time_reset telemetry_down_env = 1011"
  by (simp_all add: quiet_env_def late_env_def telemetry_down_env_def)

lemma counted_client_fields:
  "telemetry counted_client"
  "last_flush_time counted_client = 1000"
  "telemetry_flush_interval counted_client = 10"
  "metrics_count counted_client = 1"
  "events_count counted_client = 0"
  "service_checks_count counted_client = 0"
  "packets_sent counted_client = 0"
  "bytes_sent counted_client = 0"
  "packets_dropped counted_client = 0"
  "bytes_dropped counted_client = 0"
  by (simp_all add: counted_client_def unbuffered_client_def init_fields default_config_def)

lemma after_payload_fields:
  "telemetry after_payload"
  "last_flush_time after_payload = 1000"
  "telemetry_flush_interval after_payload = 10"
  "metrics_count after_payload = 1"
  "events_count after_payload = 0"
  "service_checks_count after_payload = 0"
  "packets_sent after_payload = 1"
  "bytes_sent after_payload = 6"
  "packets_dropped after_payload = 0"
  "bytes_dropped after_payload = 0"
proof -
  have fr: "io_frame after_payload = io_frame counted_client"
    unfolding after_payload_def by simp
  have ok: "fst (xmit_packet counted_client (''a:1|g'' @ [NL]) False io_ok)"
    by (rule xmit_packet_ok [where ?s0.0 = 3]) simp_all
  show "telemetry after_payload"
    "last_flush_time after_payload = 1000"
    "telemetry_flush_interval after_payload = 10"
    "metrics_count after_payload = 1"
    "events_count after_payload = 0"
    "service_checks_count after_payload = 0"
    using io_frameD [OF fr] by (simp_all add: counted_client_fields)
  show "packets_sent after_payload = 1"
    "bytes_sent after_payload = 6"
    "packets_dropped after_payload = 0"
    "bytes_dropped after_payload = 0"
    unfolding after_payload_def using ok
    by (simp_all add: xmit_packet_counters counted_client_fields)
qed

lemma after_payload_flush_time: "is_telemetry_flush_time after_payload 1011"
  by (simp add: is_telemetry_flush_time_def after_payload_fields)

theorem telemetry_flush_outcome_witness:
  "is_telemetry_flush_time after_payload (time_check late_env) \<and>
   fst (xmit_packet after_payload (flush_telemetry after_payload) True (telemetry_io late_env)) \<and>
   metrics_count (send_to_server counted_client ''a:1|g'' late_env) = 0 \<and>
   packets_sent (send_to_server counted_client ''a:1|g'' late_env) = 1 \<and>
   last_flush_time (send_to_server counted_client ''a:1|g'' late_env) = 1011 \<and>
   \<not> fst (xmit_packet after_payload (flush_telemetry after_payload) True
            (telemetry_io telemetry_down_env)) \<and>
   metrics_count (send_to_server counted_client ''a:1|g'' telemetry_down_env) = 1 \<and>
   packets_sent (send_to_server counted_client ''a:1|g'' telemetry_down_env) = 1 \<and>
   bytes_sent (send_to_server counted_client ''a:1|g'' telemetry_down_env) = 6 \<and>
   packets_dropped (send_to_server counted_client ''a:1|g'' telemetry_down_env) = 1 \<and>
   last_flush_time (send_to_server counted_client ''a:1|g'' telemetry_down_env) = 1011"
proof -
  have a1: "after_payload = snd (xmit_packet counted_client (''a:1|g'' @ [NL]) False (main_io late_env))"
    by (simp add: after_payload_def)
  have a2: "after_payload =
      snd (xmit_packet counted_client (''a:1|g'' @ [NL]) False (main_io telemetry_down_env))"
    by (simp add: after_payload_def)
  have t1: "is_telemetry_flush_time after_payload (time_check late_env)"
    by (simp add: after_payload_flush_time)
  have t2: "is_telemetry_flush_time after_payload (time_check telemetry_down_env)"
    by (simp add: after_payload_flush_time)
  have ok: "fst (xmit_packet after_payload (flush_telemetry after_payload) True
      (telemetry_io late_env))"
    by (rule xmit_packet_ok [where ?s0.0 = 3]) simp_all
  have nok: "\<not> fst (xmit_packet after_payload (flush_telemetry after_payload) True
      (telemetry_io telemetry_down_env))"
    by (rule xmit_packet_fails [where e = "SocketError EAGAIN"]) simp
  show ?thesis
    using telemetry_flush_outcome [OF a1 t1 refl refl] telemetry_flush_outcome [OF a2 t2 refl refl]
      t1 ok nok
    by (simp add: after_payload_fields)
qed

theorem telemetry_counters_not_all_zero_counterexample:
  "is_telemetry_flush_time after_payload (time_check late_env) \<and>
   fst (xmit_packet after_payload (flush_telemetry after_payload) True (telemetry_io late_env)) \<and>
   payloads True (trace (send_to_server counted_client ''a:1|g'' late_env)) =
     [flush_telemetry after_payload] \<and>
   packets_sent (send_to_server counted_client ''a:1|g'' late_env) = 1 \<and>
   bytes_sent (send_to_server counted_client ''a:1|g'' late_env) > 0"
proof -
  have a1: "after_payload = snd (xmit_packet counted_client (''a:1|g'' @ [NL]) False (main_io late_env))"
    by (simp add: after_payload_def)
  have t1: "is_telemetry_flush_time after_payload (time_check late_env)"
    by (simp add: after_payload_flush_time)
  have ok: "fst (xmit_packet after_payload (flush_telemetry after_payload) True
      (telemetry_io late_env))"
    by (rule xmit_packet_ok [where ?s0.0 = 3]) simp_all
  have len: "0 < length (flush_telemetry c)" for c
    by (simp add: flush_telemetry_def Let_def)
  have tr: "payloads True (trace counted_client) = []"
    by (simp add: counted_client_def unbuffered_client_def init_buffer)
  have p: "payloads True (trace (send_to_server counted_client ''a:1|g'' late_env)) =
     [flush_telemetry after_payload]"
    using t1 send_to_server_telemetry_payloads [of counted_client "''a:1|g''" late_env]
    unfolding a1 [symmetric] by (simp add: tr)
  show ?thesis
    using t1 ok p len [of after_payload]
    by (simp add: send_to_server_flush_ok [OF a1 t1 ok])
qed

section \<open>Failed sends\<close>

lemma mysocket_used:
  assumes "mysocket c t w = (Inr s, c1)"
  shows "if t \<and> dedicated_telemetry_destination c
         then telemetry_socket c1 = Some s else socket c1 = Some s"
proof -
  have d: "dedicated_telemetry_destination (emit e c) = dedicated_telemetry_destination c" for e
    by (simp add: dedicated_telemetry_destination_def emit_def)
  show ?thesis
    using assms
    by (auto simp add: mysocket_def get_socket_def Let_def d split: option.splits sum.splits if_splits)
qed

lemma xmit_packet_raised:
  assumes "xmit_try (emit (Xmit p t) c) p t w = (Some e, c1)"
  shows "xmit_packet c p t w =
     (False,
      if \<not> t \<and> telemetry c
      then (xmit_except e c1)\<lparr>bytes_dropped := bytes_dropped c + int (length p),
                               packets_dropped := packets_dropped c + 1\<rparr>
      else xmit_except e c1)"
proof -
  have "telemetry c1 = telemetry c" "bytes_dropped c1 = bytes_dropped c"
    "packets_dropped c1 = packets_dropped c"
    using xmit_try_frame [where c="emit (Xmit p t) c" and p=p and t=t and w=w] assms by simp_all
  then show ?thesis
    by (simp add: xmit_packet_def assms Let_def)
qed

lemma xmit_try_send_raises:
  assumes "mysocket c t w = (Inr s, c1)" and "sock_send w s (encode p) = Some e"
  shows "xmit_try c p t w = (Some e, c1)"
  using assms by (simp add: xmit_try_def)

lemma mysocket_connects:
  assumes "socket c = None" and "connect w = Inr s"
  shows "fst (mysocket c False w) = Inr s" and "socket (snd (mysocket c False w)) = Some s"
  using assms by (simp_all add: mysocket_def get_socket_def Let_def)

text \<open>
  What \<open>_xmit_packet\<close> does with a send that raises \<open>EMSGSIZE\<close>: it returns \<open>False\<close>, the
  sockets stay as they were when the send was tried, and the drop counters grow, by the
  packet's \<open>len\<close> and by one, when telemetry is on and the packet is not telemetry.
\<close>

lemma xmit_packet_emsgsize:
  assumes "mysocket (emit (Xmit p t) c) t w = (Inr s, c1)"
    and "sock_send w s (encode p) = Some (SocketError EMSGSIZE)"
  shows "xmit_packet c p t w =
     (False,
      if \<not> t \<and> telemetry c
      then c1\<lparr>bytes_dropped := bytes_dropped c + int (length p),
              packets_dropped := packets_dropped c + 1\<rparr>
      else c1)"
  using xmit_packet_raised [OF xmit_try_send_raises [OF assms]] by simp

lemma dedicated_frame:
  assumes "io_frame c' = io_frame c"
  shows "dedicated_telemetry_destination c' = dedicated_telemetry_destination c"
  using arg_cong [OF assms, of telemetry_socket_path] arg_cong [OF assms, of telemetry_host]
  by (simp add: io_frame_def dedicated_telemetry_destination_def)

lemma mysocket_cached:
  assumes "if t \<and> dedicated_telemetry_destination c
           then telemetry_socket c = Some s else socket c = Some s"
  shows "mysocket c t w = (Inr s, c)"
  using assms by (simp add: mysocket_def split: if_splits)

text \<open>After the drop the socket that was used is still the cached one: the next
  \<open>_xmit_packet\<close> sends on it without calling \<open>get_socket\<close>.\<close>

lemma xmit_packet_emsgsize_reuses:
  assumes "mysocket (emit (Xmit p t) c) t w = (Inr s, c1)"
    and "sock_send w s (encode p) = Some (SocketError EMSGSIZE)"
  shows "mysocket (snd (xmit_packet c p t w)) t w' = (Inr s, snd (xmit_packet c p t w))"
proof -
  define c0 where "c0 = emit (Xmit p t) c"
  have u: "if t \<and> dedicated_telemetry_destination c0
           then telemetry_socket c1 = Some s else socket c1 = Some s"
    using mysocket_used [of c0 t w s c1] assms(1) by (simp add: c0_def)
  have "io_frame c1 = io_frame c0"
    using mysocket_frame(1) [of c0 t w] assms(1) by (simp add: c0_def)
  then have d: "dedicated_telemetry_destination c1 = dedicated_telemetry_destination c0"
    by (rule dedicated_frame)
  define c' where "c' = snd (xmit_packet c p t w)"
  have c': "c' = (if \<not> t \<and> telemetry c
      then c1\<lparr>bytes_dropped := bytes_dropped c + int (length p),
              packets_dropped := packets_dropped c + 1\<rparr>
      else c1)"
    unfolding c'_def by (simp add: xmit_packet_emsgsize [OF assms])
  have "dedicated_telemetry_destination c' = dedicated_telemetry_destination c1"
    "socket c' = socket c1" "telemetry_socket c' = telemetry_socket c1"
    by (simp_all add: c' dedicated_telemetry_destination_def)
  with u d have "if t \<and> dedicated_telemetry_destination c'
           then telemetry_socket c' = Some s else socket c' = Some s"
    by simp
  then show ?thesis
    unfolding c'_def [symmetric] by (rule mysocket_cached)
qed

text \<open>Whatever the \<open>try\<close> block raises, \<open>_xmit_packet\<close> returns; a resolution failure and an
  \<open>OSError\<close> with another \<open>errno\<close> close both sockets.\<close>

lemma xmit_packet_closes:
  assumes "xmit_try (emit (Xmit p t) c) p t w = (Some e, c1)"
    and "e = SocketHError \<or> e = SocketGaiError \<or> e = SocketError EOTHER"
  shows "fst (xmit_packet c p t w) = False"
    and "socket (snd (xmit_packet c p t w)) = None"
    and "telemetry_socket (snd (xmit_packet c p t w)) = None"
  using assms(2) by (auto simp add: xmit_packet_raised [OF assms(1)])

text \<open>
  C4, at a packet that is not ASCII. \<open>gauge\<close> of the metric named U+00E9 hands the six
  characters of \<open>accent_packet\<close> to \<open>_xmit_packet\<close>, which sends their seven bytes. When
  the send raises \<open>EMSGSIZE\<close>, \<open>_xmit_packet\<close> returns \<open>False\<close>, the socket is kept and
  \<open>packets_dropped\<close> grows by one, but \<open>bytes_dropped\<close> grows by \<open>len(packet)\<close>, 6, not
  by the 7 bytes of the packet.
\<close>

theorem xmit_packet_emsgsize_counts_characters:
  "length (encode accent_packet) = 7 \<and>
   fst (xmit_packet unbuffered_client accent_packet False (io_fails (SocketError EMSGSIZE)))
     = False \<and>
   bytes_dropped (snd (xmit_packet unbuffered_client accent_packet False
       (io_fails (SocketError EMSGSIZE)))) = bytes_dropped unbuffered_client + 6 \<and>
   packets_dropped (snd (xmit_packet unbuffered_client accent_packet False
       (io_fails (SocketError EMSGSIZE)))) = packets_dropped unbuffered_client + 1 \<and>
   socket (snd (xmit_packet unbuffered_client accent_packet False
       (io_fails (SocketError EMSGSIZE)))) = Some 3"
proof -
  define w where "w = io_fails (SocketError EMSGSIZE)"
  define c0 where "c0 = emit (Xmit accent_packet False) unbuffered_client"
  have s0: "socket c0 = None"
    by (simp add: c0_def unbuffered_client_def init_fields)
  have cw: "connect w = Inr 3" and sw: "sock_send w s b = Some (SocketError EMSGSIZE)" for s b
    by (simp_all add: w_def)
  obtain r c1 where m: "mysocket c0 False w = (r, c1)" by (cases "mysocket c0 False w")
  have r: "r = Inr 3" and c1: "socket c1 = Some 3"
    using mysocket_connects [OF s0 cw] m by simp_all
  have tel: "telemetry unbuffered_client"
    by (simp add: unbuffered_client_def init_fields default_config_def)
  have x: "xmit_packet unbuffered_client accent_packet False w =
     (False, c1\<lparr>bytes_dropped := bytes_dropped unbuffered_client + int (length accent_packet),
                packets_dropped := packets_dropped unbuffered_client + 1\<rparr>)"
    using xmit_packet_emsgsize [of accent_packet False unbuffered_client w 3 c1] m r sw tel
    by (simp add: c0_def)
  have len: "length accent_packet = 6"
    by (simp add: accent_packet_def)
  have enc: "length (encode accent_packet) = 7"
    by (simp add: accent_packet_def encode_def encode_char_def NL_def)
  show ?thesis
    unfolding w_def [symmetric] x using len enc c1 by simp
qed

section \<open>Events\<close>

lemma replace_single:
  "replace [a] new s = concat (map (\<lambda>c. if c = a then new else [c]) s)"
  by (induction s) (simp_all add: startswith_def)

lemma escape_event_content_eq:
  "escape_event_content s =
     concat (map (\<lambda>c. if c = NL then [BACKSLASH, CHR ''n''] else [c]) s)"
  by (simp add: escape_event_content_def replace_single)

lemma escape_event_content_id:
  "NL \<notin> set s \<Longrightarrow> escape_event_content s = s"
  unfolding escape_event_content_eq by (induction s) auto

lemma length_encode_ge: "length s \<le> length (encode s)"
  unfolding encode_def by (induction s) (simp_all add: encode_char_def Let_def)

lemma length_encode_replicate_a [simp]:
  "length (encode (replicate n (CHR ''a''))) = n"
  unfolding encode_def by (induction n) (simp_all add: encode_char_def)

lemma str_int_8170: "str_int 8170 = ''8170''" "str_int 0 = ''0''"
  by (simp_all add: str_int_def str_nat.simps digit_char_def)

lemma event_raises:
  assumes "int (length (event_string c title message alert_type aggregation_key
      source_type_name date_happened priority tags hostname)) > 8192"
  shows "event c title message alert_type aggregation_key source_type_name date_happened
           priority tags hostname w = (Some ValueError, c)"
  using assms by (simp add: event_def Let_def)

lemma event_sends:
  assumes "int (length (event_string c title message alert_type aggregation_key
      source_type_name date_happened priority tags hostname)) \<le> 8192"
  shows "event c title message alert_type aggregation_key source_type_name date_happened
           priority tags hostname w =
         (None,
          call_send (if telemetry c then c\<lparr>events_count := events_count c + 1\<rparr> else c)
            (event_string c title message alert_type aggregation_key source_type_name
               date_happened priority tags hostname) w)"
  using assms by (simp add: event_def Let_def)

text \<open>
  C5, as the code has it. The size that \<open>event\<close> checks is that of the whole serialized
  event: framing, escaped title and message, the optional fields, the tags (constant
  tags included) and the container id. When it is longer than 8192 characters, \<open>event\<close>
  raises \<open>ValueError\<close> and the client is as it was: nothing reached the buffer or the
  transport and no counter moved. When its encoding is at most 8192 bytes, nothing is
  raised, the events counter is incremented if telemetry is on, and the serialized event
  goes to the send path.
\<close>

theorem event_size_check:
  assumes "string = event_string c title message alert_type aggregation_key
      source_type_name date_happened priority tags hostname"
  shows "(int (length string) > 8192 \<longrightarrow>
            event c title message alert_type aggregation_key source_type_name date_happened
              priority tags hostname w = (Some ValueError, c)) \<and>
         (int (length (encode string)) \<le> 8192 \<longrightarrow>
            event c title message alert_type aggregation_key source_type_name date_happened
              priority tags hostname w =
            (None,
             call_send (if telemetry c then c\<lparr>events_count := events_count c + 1\<rparr> else c)
               string w))"
proof -
  have "int (length string) \<le> 8192" if "int (length (encode string)) \<le> 8192"
    using that length_encode_ge [of string] by linarith
  then show ?thesis
    unfolding assms
    using event_raises [of c title message alert_type aggregation_key source_type_name
        date_happened priority tags hostname w]
      event_sends [of c title message alert_type aggregation_key source_type_name
        date_happened priority tags hostname w]
    by blast
qed

lemma encode_Nil [simp]: "encode [] = []"
  by (simp add: encode_def)

lemma long_title_facts:
  "NL \<notin> set long_title"
  "length long_title = 8170"
  "length (encode long_title) = 8170"
  by (simp_all add: long_title_def NL_def)

lemma long_event_string:
  "length (event_string buffered_client long_title [] None None None None None None
     (Some ''web-server-01'')) = 8198"
proof -
  have ct: "constant_tags buffered_client = []" "container_id buffered_client = None"
    by (simp_all add: buffered_client_def init_fields default_config_def)
  have e: "escape_event_content [] = []"
    by (simp add: escape_event_content_eq)
  show ?thesis
    by (simp add: event_string_def Let_def escape_event_content_id [OF long_title_facts(1)] e ct
        add_constant_tags_def str_int_8170 long_title_facts)
qed

theorem event_size_counterexample:
  "length (encode (escape_event_content long_title)) +
     length (encode (escape_event_content [])) = 8170 \<and>
   length (''_e{8170,0}:'' @ escape_event_content long_title @ ''|'' @ escape_event_content [])
     = 8182 \<and>
   event buffered_client long_title [] None None None None None None
     (Some ''web-server-01'') quiet_env = (Some ValueError, buffered_client)"
proof -
  have e: "escape_event_content [] = []"
    by (simp add: escape_event_content_eq)
  have "event buffered_client long_title [] None None None None None None
     (Some ''web-server-01'') quiet_env = (Some ValueError, buffered_client)"
    by (rule event_raises) (simp add: long_event_string)
  then show ?thesis
    by (simp add: escape_event_content_id [OF long_title_facts(1)] e long_title_facts)
qed

lemma buffered_client_more:
  "constant_tags buffered_client = []"
  "container_id buffered_client = None"
  "namespace buffered_client = None"
  "telemetry buffered_client"
  "enabled buffered_client"
  "send buffered_client = SendToBuffer"
  "events_count buffered_client = 0"
  "metrics_count buffered_client = 0"
  "default_sample_rate buffered_client = PyInt 1"
  by (simp_all add: buffered_client_def init_fields default_config_def)

lemma man_down_string:
  "event_string buffered_client ''Man down!'' ''This server needs assistance.''
     None None None None None None None =
   ''_e{9,29}:Man down!|This server needs assistance.''"
  by (simp add: event_string_def Let_def escape_event_content_eq NL_def buffered_client_more
      add_constant_tags_def encode_def encode_char_def str_int_def str_nat.simps digit_char_def)

theorem event_size_check_witness:
  "event buffered_client long_title [] None None None None None None
     (Some ''web-server-01'') quiet_env = (Some ValueError, buffered_client) \<and>
   fst (event buffered_client ''Man down!'' ''This server needs assistance.''
     None None None None None None None quiet_env) = None \<and>
   events_count (snd (event buffered_client ''Man down!'' ''This server needs assistance.''
     None None None None None None None quiet_env)) = 1 \<and>
   buffer (snd (event buffered_client ''Man down!'' ''This server needs assistance.''
     None None None None None None None quiet_env)) =
     [''_e{9,29}:Man down!|This server needs assistance.'']"
proof -
  have enc: "length (encode ''_e{9,29}:Man down!|This server needs assistance.'') = 48"
    by (simp add: encode_def encode_char_def)
  have sf: "\<not> should_flush (buffered_client\<lparr>events_count := 1\<rparr>)
      (int (length ''_e{9,29}:Man down!|This server needs assistance.''))"
    by (simp add: should_flush_iff buffered_client_fields)
  show ?thesis
    using event_size_check [OF refl, of buffered_client long_title "[]" None None None None None
        None "Some ''web-server-01''" quiet_env]
      event_size_check [OF refl, of buffered_client "''Man down!''"
        "''This server needs assistance.''" None None None None None None None quiet_env]
    by (simp add: long_event_string man_down_string enc buffered_client_more call_send_def
        send_to_buffer_under [OF sf] buffered_client_fields)
qed

section \<open>Metrics\<close>

text \<open>
  C6. A metric with sample rate 1, no tags, no namespace and no container id serializes
  to exactly \<open><name>:<value>|<type>\<close>. In general the packet is a head (namespace, name,
  value, type) and a tail (tags, container id), with \<open>|@<rate>\<close> between them when the
  sample rate is not 1 and nothing between them when it is. When the caller's tags and
  the constant tags are both present, the tag list that is serialized is the caller's
  tags followed by the constant tags, normalized.
\<close>

theorem serialize_metric_format:
  assumes "H = (if truthy (namespace c) then the (namespace c) @ ''.'' else []) @
                 metric @ '':'' @ text_of L v @ ''|'' @ metric_type"
    and "C = (if truthy (container_id c) then ''|c:'' @ the (container_id c) else [])"
    and "T = (if truthy tags then ''|#'' @ join '','' (normalize_tags L (the tags)) else []) @ C"
  shows "(num_val rate = 1 \<and> \<not> truthy tags \<and> \<not> truthy (namespace c) \<and>
            \<not> truthy (container_id c) \<longrightarrow>
            serialize_metric L c metric metric_type v tags rate =
              metric @ '':'' @ text_of L v @ ''|'' @ metric_type) \<and>
         (num_val rate = 1 \<longrightarrow>
            serialize_metric L c metric metric_type v tags rate = H @ T) \<and>
         (num_val rate \<noteq> 1 \<longrightarrow>
            serialize_metric L c metric metric_type v tags rate =
              H @ ''|@'' @ text_of L rate @ T) \<and>
         (ts \<noteq> [] \<and> constant_tags c \<noteq> [] \<longrightarrow>
            add_constant_tags c (Some ts) = Some (ts @ constant_tags c) \<and>
            serialize_metric L c metric metric_type v (add_constant_tags c (Some ts)) (PyInt 1) =
              H @ ''|#'' @ join '','' (normalize_tags L (ts @ constant_tags c)) @ C)"
  unfolding assms by (simp add: serialize_metric_def add_constant_tags_def)

lemma tagged_client_fields:
  "constant_tags tagged_client = [''env:prod'']"
  "container_id tagged_client = None"
  "namespace tagged_client = None"
  by (simp_all add: tagged_client_def init_fields default_config_def)

lemma str_int_examples:
  "str_int 123 = ''123''" "str_int 1001 = ''1001''" "str_int 1 = ''1''"
  by (simp_all add: str_int_def str_nat.simps digit_char_def)

theorem serialize_metric_format_witness:
  "serialize_metric pylib0 buffered_client ''users.online'' ''g'' (PyInt 123) None (PyInt 1) =
     ''users.online:123|g'' \<and>
   serialize_metric pylib0 buffered_client ''users.online'' ''g'' (PyInt 123) None
     (PyFloat (1 / 2)) = ''users.online:123|g|@0.5'' \<and>
   add_constant_tags tagged_client (Some [''protocol:http'']) =
     Some [''protocol:http'', ''env:prod''] \<and>
   serialize_metric pylib0 tagged_client ''active.connections'' ''g'' (PyInt 1001)
     (add_constant_tags tagged_client (Some [''protocol:http''])) (PyInt 1) =
     ''active.connections:1001|g|#protocol:http,env:prod''"
proof -
  have n: "normalize_tags pylib0 ts = ts" "str_float pylib0 r = ''0.5''" for ts r
    by (simp_all add: pylib0_def)
  show ?thesis
    using serialize_metric_format [OF refl refl refl, where rate = "PyInt 1" and tags = None
        and c = buffered_client and metric = "''users.online''" and L = pylib0
        and v = "PyInt 123" and metric_type = "''g''" and ts = "[]"]
      serialize_metric_format [OF refl refl refl, where rate = "PyFloat (1 / 2)" and tags = None
        and c = buffered_client and metric = "''users.online''" and L = pylib0
        and v = "PyInt 123" and metric_type = "''g''" and ts = "[]"]
      serialize_metric_format [OF refl refl refl, where rate = "PyInt 1" and tags = None
        and c = tagged_client and metric = "''active.connections''" and L = pylib0
        and v = "PyInt 1001" and metric_type = "''g''" and ts = "[''protocol:http'']"]
    by (auto simp add: buffered_client_more tagged_client_fields str_int_examples n)
qed

section \<open>Escaping\<close>

lemma escape_m_colon_spec_Cons:
  "c \<noteq> CHR ''m'' \<Longrightarrow> escape_m_colon_spec (c # cs) = c # escape_m_colon_spec cs"
  by (cases cs) simp_all

lemma replace_m_colon_Cons:
  "c \<noteq> CHR ''m'' \<Longrightarrow> replace ''m:'' new (c # cs) = c # replace ''m:'' new cs"
  by (simp add: startswith_def)

lemma replace_m_colon:
  "replace ''m:'' [CHR ''m'', BACKSLASH, CHR '':''] s = escape_m_colon_spec s"
proof (induction s rule: escape_m_colon_spec.induct)
  case 1
  show ?case by simp
next
  case (2 c)
  show ?case by (simp add: startswith_def)
next
  case (3 c d cs)
  show ?case
  proof (cases "c = CHR ''m'' \<and> d = CHR '':''")
    case True
    have "replace ''m:'' [CHR ''m'', BACKSLASH, CHR '':''] (CHR '':'' # cs) =
        CHR '':'' # replace ''m:'' [CHR ''m'', BACKSLASH, CHR '':''] cs"
      by (rule replace_m_colon_Cons) simp
    moreover have "escape_m_colon_spec (CHR '':'' # cs) = CHR '':'' # escape_m_colon_spec cs"
      by (rule escape_m_colon_spec_Cons) simp
    ultimately have "replace ''m:'' [CHR ''m'', BACKSLASH, CHR '':''] cs = escape_m_colon_spec cs"
      using 3 True by simp
    with True show ?thesis
      by (simp add: startswith_def escape_m_colon_spec_Cons)
  next
    case False
    then have "\<not> startswith (c # d # cs) ''m:''"
      by (auto simp add: startswith_def)
    then show ?thesis
      using 3 False by simp
  qed
qed

text \<open>
  C8. The escaping functions do what the specification says, character by character:
  \<open>_escape_event_content\<close> turns each newline into backslash, \<open>n\<close> and keeps every other
  character; \<open>_escape_service_check_message\<close> does the same and then puts a backslash
  into each \<open>m:\<close>. The serialized event holds the escaped title and the escaped message
  after its framing, whatever the other fields are, and the serialized service check
  holds the escaped message in its \<open>m:\<close> field.
\<close>

theorem escaping_refines_spec:
  "escape_event_content s = escape_newlines_spec s \<and>
   escape_service_check_message s = escape_m_colon_spec (escape_newlines_spec s) \<and>
   (\<exists>rest. \<forall>title message.
      event_string c title message alert_type aggregation_key source_type_name
        date_happened priority tags hostname =
      ''_e{'' @ str_int (int (length (encode (escape_event_content title)))) @ '','' @
        str_int (int (length (encode (escape_event_content message)))) @ ''}:'' @
        escape_event_content title @ ''|'' @ escape_event_content message @ rest) \<and>
   service_check_string c check_name status tags timestamp hostname (Some s) =
     service_check_string (c\<lparr>container_id := None\<rparr>) check_name status tags timestamp
       hostname None @
     (if escape_service_check_message s \<noteq> [] then ''|m:'' @ escape_service_check_message s
      else []) @
     (if truthy (container_id c) then ''|c:'' @ the (container_id c) else [])"
proof -
  have e: "escape_event_content s = escape_newlines_spec s" for s
    by (simp add: escape_event_content_eq escape_newlines_spec_def)
  have m: "escape_service_check_message s = escape_m_colon_spec (escape_newlines_spec s)"
    by (simp add: escape_service_check_message_def replace_m_colon e [symmetric]
        escape_event_content_def)
  have ev: "\<exists>rest. \<forall>title message.
      event_string c title message alert_type aggregation_key source_type_name
        date_happened priority tags hostname =
      ''_e{'' @ str_int (int (length (encode (escape_event_content title)))) @ '','' @
        str_int (int (length (encode (escape_event_content message)))) @ ''}:'' @
        escape_event_content title @ ''|'' @ escape_event_content message @ rest"
    unfolding event_string_def Let_def
    by (rule exI [of _ "(if truthy_int date_happened
          then ''|d:'' @ str_int (the date_happened) else []) @
        (if truthy hostname then ''|h:'' @ the hostname else []) @
        (if truthy aggregation_key then ''|k:'' @ the aggregation_key else []) @
        (if truthy priority then ''|p:'' @ the priority else []) @
        (if truthy source_type_name then ''|s:'' @ the source_type_name else []) @
        (if truthy alert_type then ''|t:'' @ the alert_type else []) @
        (if truthy (add_constant_tags c tags)
         then ''|#'' @ join '','' (the (add_constant_tags c tags)) else []) @
        (if truthy (container_id c) then ''|c:'' @ the (container_id c) else [])"]) simp
  have sc: "service_check_string c check_name status tags timestamp hostname (Some s) =
     service_check_string (c\<lparr>container_id := None\<rparr>) check_name status tags timestamp
       hostname None @
     (if escape_service_check_message s \<noteq> [] then ''|m:'' @ escape_service_check_message s
      else []) @
     (if truthy (container_id c) then ''|c:'' @ the (container_id c) else [])"
  proof -
    have "add_constant_tags (c\<lparr>container_id := None\<rparr>) tags = add_constant_tags c tags"
      by (cases tags) (simp_all add: add_constant_tags_def)
    then show ?thesis
      by (simp add: service_check_string_def Let_def)
  qed
  show ?thesis
    using e m ev sc by blast
qed

theorem escaping_refines_spec_witness:
  "escape_event_content (''a'' @ [NL] @ ''b'') = ''a'' @ [BACKSLASH] @ ''nb'' \<and>
   escape_service_check_message (''m:a'' @ [NL] @ ''bm'') =
     ''m'' @ [BACKSLASH] @ '':a'' @ [BACKSLASH] @ ''nbm''"
  using escaping_refines_spec [of "''a'' @ [NL] @ ''b''"]
    escaping_refines_spec [of "''m:a'' @ [NL] @ ''bm''"]
  by (simp add: escape_newlines_spec_def NL_def BACKSLASH_def)

section \<open>Reporting\<close>

lemma metrics_count_simps [simp]:
  "metrics_count (emit e c) = metrics_count c"
  "metrics_count (reset_buffer c) = metrics_count c"
  by (simp_all add: emit_def reset_buffer_def)

lemma send_to_server_metrics:
  assumes "payloads True (trace (send_to_server c p w)) = payloads True (trace c)"
  shows "metrics_count (send_to_server c p w) = metrics_count c"
proof -
  define c1 where "c1 = snd (xmit_packet c (p @ [NL]) False (main_io w))"
  have nf: "\<not> is_telemetry_flush_time c1 (time_check w)"
    using assms unfolding send_to_server_telemetry_payloads c1_def by (simp split: if_splits)
  have "io_frame c1 = io_frame c"
    unfolding c1_def by simp
  then have "metrics_count c1 = metrics_count c"
    by (rule io_frameD(5))
  then show ?thesis
    using send_to_server_no_flush [of c p w] nf by (simp add: c1_def)
qed

lemma flush_metrics:
  assumes "payloads True (trace (flush c w)) = payloads True (trace c)"
  shows "metrics_count (flush c w) = metrics_count c"
proof (cases "buffer c = []")
  case True
  then show ?thesis by (simp add: flush_empty)
next
  case False
  define c1 where "c1 = emit (Acquire BufferLock) c"
  have f: "flush c w = emit (Release BufferLock)
      (reset_buffer (send_to_server c1 (join [NL] (buffer c1)) w))"
    using False by (simp add: flush_def Let_def c1_def)
  have "payloads True (trace (send_to_server c1 (join [NL] (buffer c1)) w)) =
      payloads True (trace c1)"
    using assms unfolding f by (simp add: c1_def)
  then have "metrics_count (send_to_server c1 (join [NL] (buffer c1)) w) = metrics_count c1"
    by (rule send_to_server_metrics)
  then show ?thesis
    unfolding f by (simp add: c1_def)
qed

lemma send_to_buffer_metrics:
  assumes "payloads True (trace (send_to_buffer c p w)) = payloads True (trace c)"
  shows "metrics_count (send_to_buffer c p w) = metrics_count c"
proof (cases "should_flush c (int (length p))")
  case False
  then show ?thesis by (simp add: send_to_buffer_under)
next
  case True
  define c1 where "c1 = emit (Acquire BufferLock) c"
  have "payloads True (trace (flush c1 w)) = payloads True (trace c1)"
    using assms True by (simp add: send_to_buffer_def Let_def c1_def)
  then have "metrics_count (flush c1 w) = metrics_count c1"
    by (rule flush_metrics)
  then show ?thesis
    using True by (simp add: send_to_buffer_def Let_def c1_def)
qed

lemma call_send_metrics:
  assumes "payloads True (trace (call_send c p w)) = payloads True (trace c)"
  shows "metrics_count (call_send c p w) = metrics_count c"
  using assms send_to_buffer_metrics [of c p w] send_to_server_metrics [of c p w]
  by (cases "send c") (simp_all add: call_send_def)

lemma report_sampled_out:
  assumes "enabled c"
    and "rate = (case sample_rate of None \<Rightarrow> default_sample_rate c | Some r \<Rightarrow> r)"
    and "num_val rate \<noteq> 1 \<and> random_value w > num_val rate"
  shows "report L c metric metric_type (Some v) tags sample_rate w =
     (if telemetry c then c\<lparr>metrics_count := metrics_count c + 1\<rparr> else c)"
  using assms by (cases sample_rate) (simp_all add: report_def Let_def)

lemma report_sent:
  assumes "enabled c"
    and "rate = (case sample_rate of None \<Rightarrow> default_sample_rate c | Some r \<Rightarrow> r)"
    and "\<not> (num_val rate \<noteq> 1 \<and> random_value w > num_val rate)"
    and "c1 = (if telemetry c then c\<lparr>metrics_count := metrics_count c + 1\<rparr> else c)"
  shows "report L c metric metric_type (Some v) tags sample_rate w =
     call_send c1 (serialize_metric L c1 metric metric_type v (add_constant_tags c1 tags) rate) w"
  using assms by (cases sample_rate) (auto simp add: report_def Let_def)

text \<open>
  C9. On an enabled client with telemetry on, a report of a value that is not \<open>None\<close>
  counts the metric once, before the sampling decision: when the metric is sampled out,
  the call returns the client with \<open>metrics_count\<close> one higher and nothing else changed;
  when it is not, the client that reaches the send path has \<open>metrics_count\<close> one higher,
  and so has the client the call returns unless a telemetry packet was handed to the
  transport during the call (it carries the count, and the counters are reset when it
  went out). The seven reporting methods are this report with their type letter,
  \<open>decrement\<close> with the value negated unless it is zero.
\<close>

theorem report_counts_submitted_metrics:
  assumes "enabled c" and "telemetry c"
    and "rate = (case sample_rate of None \<Rightarrow> default_sample_rate c | Some r \<Rightarrow> r)"
    and "c1 = c\<lparr>metrics_count := metrics_count c + 1\<rparr>"
    and "c' = report L c metric metric_type (Some v) tags sample_rate w"
  shows "(num_val rate \<noteq> 1 \<and> random_value w > num_val rate \<longrightarrow> c' = c1) \<and>
         (\<not> (num_val rate \<noteq> 1 \<and> random_value w > num_val rate) \<longrightarrow>
            c' = call_send c1
                   (serialize_metric L c1 metric metric_type v (add_constant_tags c1 tags) rate) w) \<and>
         (payloads True (trace c') = payloads True (trace c) \<longrightarrow>
            metrics_count c' = metrics_count c + 1) \<and>
         gauge L c metric (Some v) tags sample_rate w =
           report L c metric ''g'' (Some v) tags sample_rate w \<and>
         increment L c metric (Some v) tags sample_rate w =
           report L c metric ''c'' (Some v) tags sample_rate w \<and>
         decrement L c metric (Some v) tags sample_rate w =
           report L c metric ''c'' (Some (if num_val v \<noteq> 0 then num_neg v else v))
             tags sample_rate w \<and>
         histogram L c metric (Some v) tags sample_rate w =
           report L c metric ''h'' (Some v) tags sample_rate w \<and>
         distribution L c metric (Some v) tags sample_rate w =
           report L c metric ''d'' (Some v) tags sample_rate w \<and>
         timing L c metric (Some v) tags sample_rate w =
           report L c metric ''ms'' (Some v) tags sample_rate w \<and>
         set_metric L c metric (Some v) tags sample_rate w =
           report L c metric ''s'' (Some v) tags sample_rate w"
proof -
  have c1: "c1 = (if telemetry c then c\<lparr>metrics_count := metrics_count c + 1\<rparr> else c)"
    using assms(2,4) by simp
  have out: "c' = c1" if "num_val rate \<noteq> 1 \<and> random_value w > num_val rate"
    unfolding assms(5) c1 using report_sampled_out [OF assms(1) assms(3) that] by simp
  have sent: "c' = call_send c1
      (serialize_metric L c1 metric metric_type v (add_constant_tags c1 tags) rate) w"
    if "\<not> (num_val rate \<noteq> 1 \<and> random_value w > num_val rate)"
    unfolding assms(5) using report_sent [OF assms(1) assms(3) that c1] by simp
  have tr1: "payloads True (trace c1) = payloads True (trace c)"
    and m1: "metrics_count c1 = metrics_count c + 1"
    by (simp_all add: assms(4))
  have cnt: "metrics_count c' = metrics_count c + 1"
    if t: "payloads True (trace c') = payloads True (trace c)"
  proof (cases "num_val rate \<noteq> 1 \<and> random_value w > num_val rate")
    case True
    then show ?thesis using out m1 by simp
  next
    case False
    define p where "p = serialize_metric L c1 metric metric_type v (add_constant_tags c1 tags) rate"
    have c': "c' = call_send c1 p w"
      using sent [OF False] by (simp add: p_def)
    have "payloads True (trace (call_send c1 p w)) = payloads True (trace c1)"
      using t tr1 c' by simp
    then have "metrics_count (call_send c1 p w) = metrics_count c1"
      by (rule call_send_metrics)
    then show ?thesis
      using c' m1 by simp
  qed
  have w: "gauge L c metric (Some v) tags sample_rate w =
           report L c metric ''g'' (Some v) tags sample_rate w \<and>
         increment L c metric (Some v) tags sample_rate w =
           report L c metric ''c'' (Some v) tags sample_rate w \<and>
         decrement L c metric (Some v) tags sample_rate w =
           report L c metric ''c'' (Some (if num_val v \<noteq> 0 then num_neg v else v))
             tags sample_rate w \<and>
         histogram L c metric (Some v) tags sample_rate w =
           report L c metric ''h'' (Some v) tags sample_rate w \<and>
         distribution L c metric (Some v) tags sample_rate w =
           report L c metric ''d'' (Some v) tags sample_rate w \<and>
         timing L c metric (Some v) tags sample_rate w =
           report L c metric ''ms'' (Some v) tags sample_rate w \<and>
         set_metric L c metric (Some v) tags sample_rate w =
           report L c metric ''s'' (Some v) tags sample_rate w"
    by (simp add: gauge_def increment_def decrement_def histogram_def distribution_def
        timing_def set_metric_def)
  show ?thesis
    using out sent cnt w by blast
qed

theorem report_counts_submitted_metrics_witness:
  "enabled buffered_client \<and> telemetry buffered_client \<and>
   gauge pylib0 buffered_client ''users.online'' (Some (PyInt 123)) None
     (Some (PyFloat (1 / 4))) quiet_env = buffered_client\<lparr>metrics_count := 1\<rparr> \<and>
   metrics_count (gauge pylib0 buffered_client ''users.online'' (Some (PyInt 123)) None None
     quiet_env) = 1 \<and>
   buffer (gauge pylib0 buffered_client ''users.online'' (Some (PyInt 123)) None None
     quiet_env) = [''users.online:123|g'']"
proof -
  have e: "enabled buffered_client" and t: "telemetry buffered_client"
    by (simp_all add: buffered_client_more)
  have sf: "\<not> should_flush (buffered_client\<lparr>metrics_count := 1\<rparr>)
      (int (length ''users.online:123|g''))"
    by (simp add: should_flush_iff buffered_client_fields)
  have s: "serialize_metric pylib0 (buffered_client\<lparr>metrics_count := 1\<rparr>) ''users.online'' ''g''
      (PyInt 123) None (PyInt 1) = ''users.online:123|g''"
    by (simp add: serialize_metric_def buffered_client_more str_int_examples)
  have a: "add_constant_tags (buffered_client\<lparr>metrics_count := 1\<rparr>) None = None"
    by (simp add: add_constant_tags_def buffered_client_more)
  show ?thesis
    using report_counts_submitted_metrics [OF e t refl refl refl, where L = pylib0
        and metric = "''users.online''" and metric_type = "''g''" and v = "PyInt 123"
        and tags = None and sample_rate = "Some (PyFloat (1 / 4))" and w = quiet_env]
      report_counts_submitted_metrics [OF e t refl refl refl, where L = pylib0
        and metric = "''users.online''" and metric_type = "''g''" and v = "PyInt 123"
        and tags = None and sample_rate = None and w = quiet_env]
    by (simp add: buffered_client_more s a call_send_def send_to_buffer_under [OF sf]
        buffered_client_fields)
qed

text \<open>
  C10. A report whose value is \<open>None\<close> returns the client as it was: no packet, no change
  of the buffer or its size, no counter moved. So do the seven reporting methods.
\<close>

theorem report_none_is_noop:
  "report L c metric metric_type None tags sample_rate w = c \<and>
   gauge L c metric None tags sample_rate w = c \<and>
   increment L c metric None tags sample_rate w = c \<and>
   decrement L c metric None tags sample_rate w = c \<and>
   histogram L c metric None tags sample_rate w = c \<and>
   distribution L c metric None tags sample_rate w = c \<and>
   timing L c metric None tags sample_rate w = c \<and>
   set_metric L c metric None tags sample_rate w = c"
  by (simp add: report_def gauge_def increment_def decrement_def histogram_def
      distribution_def timing_def set_metric_def)

theorem report_none_is_noop_witness:
  "gauge pylib0 buffered_client ''users.online'' None None None quiet_env = buffered_client \<and>
   decrement pylib0 counted_client ''active.connections'' None (Some [''a:b'']) None late_env
     = counted_client"
  using report_none_is_noop [of pylib0 buffered_client "''users.online''" "''g''" None None quiet_env]
    report_none_is_noop [of pylib0 counted_client "''active.connections''" "''c''"
      "Some [''a:b'']" None late_env]
  by simp

section \<open>The buffering toggle\<close>

lemma extends_refl [simp]: "extends c c"
  by (simp add: extends_def)



































end
